theory Spec2Isabelle
  imports Main
begin

section \<open>Exceptions and configuration\<close>

text \<open>
  The error numbers of the system calls that the storage layer makes, and the Python
  exceptions that it raises or lets through. Every raise of the source is a value
  \<open>Inl e\<close> of a result \<open>exn + 'a\<close>; a normal return is \<open>Inr v\<close>. The string carried by an
  OS error is the path the call was given; \<open>OSError\<close> is an OS error that has no class of
  its own, with its error number; the string of \<open>RuntimeError\<close> is its message;
  \<open>EngineError\<close> stands for whatever the database engine raises by itself.
\<close>

datatype errno = ENOENT | ENOTDIR | EISDIR | EACCES | ENAMETOOLONG | ELOOP | EBADF

datatype exn =
    AttributeError string
  | FileNotFoundError string
  | NotADirectoryError string
  | IsADirectoryError string
  | PermissionError string
  | OSError errno string
  | ValueError string
  | UnicodeDecodeError
  | JSONDecodeError
  | RecursionError
  | RuntimeError string
  | EngineError string

text \<open>
  \<open>EnvironmentVars\<close> is a class of the repository that is not part of the sources at hand;
  it is taken as a parameter. \<open>getattr(EnvironmentVars, obj_type)\<close> looks the name up as
  Python does on a class. \<open>__name__\<close> is the name of the class, whatever the class body
  holds. Then come the attributes that the class configures, one for each object type
  (\<open>roots\<close>), and then everything else that the lookup finds on a class (\<open>inherited\<close>):
  its methods, and what every class has from \<open>object\<close> and \<open>type\<close>, such as \<open>__doc__\<close>,
  \<open>__module__\<close>, \<open>__dict__\<close> or \<open>mro\<close>. Both maps give the text that the f-string renders
  for the attribute's value. \<open>AttributeError\<close> is raised when the name is found nowhere.
\<close>

record environment_vars =
  class_name :: string
  roots :: "string \<rightharpoonup> string"
  inherited :: "string \<rightharpoonup> string"

definition getattr :: "environment_vars \<Rightarrow> string \<Rightarrow> exn + string" where
  "getattr env name =
     (if name = ''__name__'' then Inr (class_name env)
      else
        (case roots env name of
           Some v \<Rightarrow> Inr v
         | None \<Rightarrow>
             (case inherited env name of
                Some v \<Rightarrow> Inr v
              | None \<Rightarrow> Inl (AttributeError name))))"

text \<open>
  Two settings of the interpreter bound what the JSON codec does.
  \<open>sys.get_int_max_str_digits()\<close>, 4300 unless it has been changed and 0 for no limit, is
  the number of digits beyond which an \<open>int\<close> is not converted to or from text. Of the
  recursion limit a call sees what the stack still leaves: \<open>encoder_depth\<close> and
  \<open>decoder_depth\<close> are the nesting that \<open>json.dump\<close> and \<open>json.load\<close> can reach from where
  the storage layer calls them, about a thousand less the frames in use.
\<close>

record interpreter =
  int_max_str_digits :: nat
  encoder_depth :: nat
  decoder_depth :: nat

definition exceeds_digits :: "interpreter \<Rightarrow> nat \<Rightarrow> bool" where
  "exceeds_digits py n = (int_max_str_digits py \<noteq> 0 \<and> int_max_str_digits py < n)"

definition digits_error :: exn where
  "digits_error = ValueError ''Exceeds the limit for integer string conversion''"

section \<open>JSON documents\<close>

text \<open>
  The values \<open>json.dump\<close> writes and \<open>json.load\<close> returns. A Python \<open>str\<close> is the list of
  its code points; a \<open>dict\<close> is the list of its items in insertion order, with distinct
  keys that are strings; a \<open>list\<close> is a list. A \<open>float\<close> is known by a literal that denotes
  it only: floating-point values are outside what is stated about documents below.
\<close>

datatype json =
    JNull
  | JBool bool
  | JInt int
  | JFloat string
  | JStr "nat list"
  | JArr "json list"
  | JObj "(nat list \<times> json) list"

definition py_str :: "string \<Rightarrow> nat list" where
  "py_str s = map of_char s"

subsection \<open>\<open>json.dump(obj, fp, indent=2)\<close>\<close>

text \<open>
  The encoder with its defaults and \<open>indent=2\<close>: \<open>ensure_ascii\<close> escapes everything but
  printable ASCII (code points above the BMP as a surrogate pair), items are separated by
  a comma and a new line, keys from values by a colon and a space, and an empty list or
  dict is written closed. With an indent the encoder is the one written in Python: it
  walks the value from left to right and raises at the first thing it cannot do.
  \<open>int.__repr__\<close> raises \<open>ValueError\<close> for an \<open>int\<close> of too many digits. A list or dict
  that is not empty takes a frame of the stack and makes a call from it, and so does the
  function that renders a \<open>float\<close>: at a nesting that the stack does not leave room for
  they raise \<open>RecursionError\<close>. (For an infinity the interpreter may save that call, once
  it has specialised the comparisons of the function; this is not modelled.) \<open>level\<close> is
  the number of lists and dicts around a value.
\<close>

definition hex_digit :: "nat \<Rightarrow> char" where
  "hex_digit d = ''0123456789abcdef'' ! (d mod 16)"

definition hex4 :: "nat \<Rightarrow> string" where
  "hex4 n = [hex_digit (n div 4096), hex_digit (n div 256), hex_digit (n div 16), hex_digit n]"

definition escape_char :: "nat \<Rightarrow> string" where
  "escape_char n =
     (if n = 34 then [CHR 0x5C, CHR 0x22]
      else if n = 92 then [CHR 0x5C, CHR 0x5C]
      else if n = 8 then [CHR 0x5C, CHR ''b'']
      else if n = 12 then [CHR 0x5C, CHR ''f'']
      else if n = 10 then [CHR 0x5C, CHR ''n'']
      else if n = 13 then [CHR 0x5C, CHR ''r'']
      else if n = 9 then [CHR 0x5C, CHR ''t'']
      else if 32 \<le> n \<and> n \<le> 126 then [char_of n]
      else if n < 65536 then CHR 0x5C # CHR ''u'' # hex4 n
      else CHR 0x5C # CHR ''u'' # hex4 (55296 + (n - 65536) div 1024 mod 1024)
           @ CHR 0x5C # CHR ''u'' # hex4 (56320 + (n - 65536) mod 1024))"

definition encode_str :: "nat list \<Rightarrow> string" where
  "encode_str s = CHR 0x22 # concat (map escape_char s) @ [CHR 0x22]"

fun digits :: "nat \<Rightarrow> string" where
  "digits n = (if n < 10 then [char_of (48 + n)] else digits (n div 10) @ [char_of (48 + n mod 10)])"

definition repr_int :: "interpreter \<Rightarrow> int \<Rightarrow> exn + string" where
  "repr_int py i =
     (if exceeds_digits py (length (digits (nat \<bar>i\<bar>))) then Inl digits_error
      else Inr (if i < 0 then CHR ''-'' # digits (nat (- i)) else digits (nat i)))"

definition newline_indent :: "nat \<Rightarrow> string" where
  "newline_indent level = CHR 0x0A # replicate (2 * level) CHR '' ''"

fun join_with :: "string \<Rightarrow> string list \<Rightarrow> string" where
  "join_with sep [] = []"
| "join_with sep [x] = x"
| "join_with sep (x # y # ys) = x @ sep @ join_with sep (y # ys)"

fun iterencode :: "interpreter \<Rightarrow> nat \<Rightarrow> json \<Rightarrow> exn + string"
  and iterencode_list :: "interpreter \<Rightarrow> nat \<Rightarrow> json list \<Rightarrow> exn + string list"
  and iterencode_dict :: "interpreter \<Rightarrow> nat \<Rightarrow> (nat list \<times> json) list \<Rightarrow> exn + string list" where
  "iterencode py level JNull = Inr ''null''"
| "iterencode py level (JBool b) = Inr (if b then ''true'' else ''false'')"
| "iterencode py level (JInt i) = repr_int py i"
| "iterencode py level (JFloat lit) =
     (if encoder_depth py \<le> level then Inl RecursionError else Inr lit)"
| "iterencode py level (JStr s) = Inr (encode_str s)"
| "iterencode py level (JArr xs) =
     (if xs = [] then Inr ''[]''
      else if encoder_depth py \<le> level then Inl RecursionError
      else
        (case iterencode_list py (Suc level) xs of
           Inl e \<Rightarrow> Inl e
         | Inr chunks \<Rightarrow>
             Inr (''['' @ newline_indent (Suc level)
                  @ join_with (CHR '','' # newline_indent (Suc level)) chunks
                  @ newline_indent level @ '']'')))"
| "iterencode py level (JObj kvs) =
     (if kvs = [] then Inr ''{}''
      else if encoder_depth py \<le> level then Inl RecursionError
      else
        (case iterencode_dict py (Suc level) kvs of
           Inl e \<Rightarrow> Inl e
         | Inr chunks \<Rightarrow>
             Inr (''{'' @ newline_indent (Suc level)
                  @ join_with (CHR '','' # newline_indent (Suc level)) chunks
                  @ newline_indent level @ ''}'')))"
| "iterencode_list py level [] = Inr []"
| "iterencode_list py level (x # xs) =
     (case iterencode py level x of
        Inl e \<Rightarrow> Inl e
      | Inr chunk \<Rightarrow>
          (case iterencode_list py level xs of
             Inl e \<Rightarrow> Inl e
           | Inr chunks \<Rightarrow> Inr (chunk # chunks)))"
| "iterencode_dict py level [] = Inr []"
| "iterencode_dict py level ((k, v) # kvs) =
     (case iterencode py level v of
        Inl e \<Rightarrow> Inl e
      | Inr chunk \<Rightarrow>
          (case iterencode_dict py level kvs of
             Inl e \<Rightarrow> Inl e
           | Inr chunks \<Rightarrow> Inr ((encode_str k @ '': '' @ chunk) # chunks)))"

definition json_dumps :: "interpreter \<Rightarrow> json \<Rightarrow> exn + string" where
  "json_dumps py obj = iterencode py 0 obj"

subsection \<open>Decoding UTF-8\<close>

text \<open>
  A file is read with \<open>encoding="utf-8"\<close>: the strict decoder, which refuses overlong
  forms, surrogates and code points above U+10FFFF.
\<close>

definition continuation :: "nat \<Rightarrow> bool" where
  "continuation b = (128 \<le> b \<and> b < 192)"

fun utf8_points :: "nat list \<Rightarrow> nat list option" where
  "utf8_points [] = Some []"
| "utf8_points (b # bs) =
     (if b < 128 then map_option (Cons b) (utf8_points bs)
      else if 194 \<le> b \<and> b < 224 then
        (case bs of
           b1 # r \<Rightarrow>
             (if continuation b1
              then map_option (Cons ((b - 192) * 64 + (b1 - 128))) (utf8_points r)
              else None)
         | _ \<Rightarrow> None)
      else if 224 \<le> b \<and> b < 240 then
        (case bs of
           b1 # b2 # r \<Rightarrow>
             (let n = (b - 224) * 4096 + (b1 - 128) * 64 + (b2 - 128) in
              if continuation b1 \<and> continuation b2 \<and> 2048 \<le> n \<and> \<not> (55296 \<le> n \<and> n < 57344)
              then map_option (Cons n) (utf8_points r)
              else None)
         | _ \<Rightarrow> None)
      else if 240 \<le> b \<and> b < 245 then
        (case bs of
           b1 # b2 # b3 # r \<Rightarrow>
             (let n = (b - 240) * 262144 + (b1 - 128) * 4096 + (b2 - 128) * 64 + (b3 - 128) in
              if continuation b1 \<and> continuation b2 \<and> continuation b3
                 \<and> 65536 \<le> n \<and> n < 1114112
              then map_option (Cons n) (utf8_points r)
              else None)
         | _ \<Rightarrow> None)
      else None)"

definition utf8_decode :: "string \<Rightarrow> nat list option" where
  "utf8_decode bytes = utf8_points (map of_char bytes)"

subsection \<open>\<open>json.load(fp)\<close>\<close>

text \<open>
  The decoder reads the text once, from left to right, and raises at the first thing it
  cannot accept. Here the characters are grouped into tokens (\<open>lex_step\<close>) and each token
  is handed on at once (\<open>parse_step\<close>, with the open containers on a stack). White space
  is blank, tab, line feed and carriage return, between tokens only. Strings are strict:
  no raw control character; the escapes are those of JSON, \<open>\uXXXX\<close> with four hex
  digits, a high surrogate joined with a low one that follows it. A number is the
  longest run of characters that the JSON grammar of numbers takes; with a fraction or
  an exponent its value is a float, and so is the value of \<open>NaN\<close>, \<open>Infinity\<close> and
  \<open>-Infinity\<close>, which the decoder accepts beyond JSON. The whole text must be one value.

  Whatever the text does not allow is a \<open>JSONDecodeError\<close>. Two more exceptions come from
  the interpreter: \<open>ValueError\<close>, when an integer with too many digits is converted, and
  \<open>RecursionError\<close>, when the stack does not leave room for what the decoder is about to
  do: to enter a list or dict, to call the function for the three constants, or to
  build the \<open>JSONDecodeError\<close> itself, which takes three calls from where the error is
  found. A missing value is found inside the scanner and reported from outside it,
  at the top; every other error inside a list or dict is reported from within.
\<close>

datatype token =
    TLBrace | TRBrace | TLBrack | TRBrack | TComma | TColon
  | TScalar json
  | TNumber bool "nat list"
  | TConstant string

datatype numstate = NSign | NZero | NInt | NDot | NFrac | NE | NESign | NExp

datatype lmode =
    LIdle
  | LKeyword "nat list" token
  | LNumber numstate "nat list"
  | LString "nat list"
  | LEscape "nat list"
  | LHex "nat list" "nat list"
  | LHigh "nat list" nat
  | LHighEscape "nat list" nat
  | LHighHex "nat list" nat "nat list"

definition is_digit :: "nat \<Rightarrow> bool" where
  "is_digit c = (48 \<le> c \<and> c \<le> 57)"

definition num_step :: "numstate \<Rightarrow> nat \<Rightarrow> numstate option" where
  "num_step st c =
     (case st of
        NSign \<Rightarrow> (if c = 48 then Some NZero else if is_digit c then Some NInt else None)
      | NZero \<Rightarrow> (if c = 46 then Some NDot else if c = 101 \<or> c = 69 then Some NE else None)
      | NInt \<Rightarrow> (if is_digit c then Some NInt else if c = 46 then Some NDot
                 else if c = 101 \<or> c = 69 then Some NE else None)
      | NDot \<Rightarrow> (if is_digit c then Some NFrac else None)
      | NFrac \<Rightarrow> (if is_digit c then Some NFrac else if c = 101 \<or> c = 69 then Some NE else None)
      | NE \<Rightarrow> (if c = 43 \<or> c = 45 then Some NESign else if is_digit c then Some NExp else None)
      | NESign \<Rightarrow> (if is_digit c then Some NExp else None)
      | NExp \<Rightarrow> (if is_digit c then Some NExp else None))"

definition num_final :: "numstate \<Rightarrow> bool" where
  "num_final st = (st = NZero \<or> st = NInt \<or> st = NFrac \<or> st = NExp)"

text \<open>
  The number that has been read when no further character fits, the characters seen
  being \<open>lit\<close> in reverse: all of them in a final state; without the point, the \<open>e\<close> or the
  \<open>e\<close> and its sign that nothing followed otherwise; none after a sign alone. The token
  says whether the number is an integer.
\<close>

definition number_end :: "numstate \<Rightarrow> nat list \<Rightarrow> token list" where
  "number_end st lit =
     (case st of
        NSign \<Rightarrow> []
      | NZero \<Rightarrow> [TNumber True (rev lit)]
      | NInt \<Rightarrow> [TNumber True (rev lit)]
      | NDot \<Rightarrow> [TNumber True (rev (tl lit))]
      | NFrac \<Rightarrow> [TNumber False (rev lit)]
      | NE \<Rightarrow> [TNumber (46 \<notin> set lit) (rev (tl lit))]
      | NESign \<Rightarrow> [TNumber (46 \<notin> set lit) (rev (tl (tl lit)))]
      | NExp \<Rightarrow> [TNumber False (rev lit)])"

text \<open>
  A step of the lexer gives the tokens that are complete with this character, and the
  mode to go on in, or \<open>None\<close> when the character cannot stand where it is.
\<close>

definition idle_step :: "nat \<Rightarrow> token list \<times> lmode option" where
  "idle_step c =
     (if c = 32 \<or> c = 9 \<or> c = 10 \<or> c = 13 then ([], Some LIdle)
      else if c = 123 then ([TLBrace], Some LIdle)
      else if c = 125 then ([TRBrace], Some LIdle)
      else if c = 91 then ([TLBrack], Some LIdle)
      else if c = 93 then ([TRBrack], Some LIdle)
      else if c = 44 then ([TComma], Some LIdle)
      else if c = 58 then ([TColon], Some LIdle)
      else if c = 34 then ([], Some (LString []))
      else if c = 45 then ([], Some (LNumber NSign [c]))
      else if c = 48 then ([], Some (LNumber NZero [c]))
      else if is_digit c then ([], Some (LNumber NInt [c]))
      else if c = 116 then ([], Some (LKeyword (py_str ''rue'') (TScalar (JBool True))))
      else if c = 102 then ([], Some (LKeyword (py_str ''alse'') (TScalar (JBool False))))
      else if c = 110 then ([], Some (LKeyword (py_str ''ull'') (TScalar JNull)))
      else if c = 78 then ([], Some (LKeyword (py_str ''aN'') (TConstant ''NaN'')))
      else if c = 73 then ([], Some (LKeyword (py_str ''nfinity'') (TConstant ''Infinity'')))
      else ([], None))"

definition string_step :: "nat list \<Rightarrow> nat \<Rightarrow> token list \<times> lmode option" where
  "string_step acc c =
     (if c = 34 then ([TScalar (JStr (rev acc))], Some LIdle)
      else if c = 92 then ([], Some (LEscape acc))
      else if c < 32 then ([], None)
      else ([], Some (LString (c # acc))))"

definition escape_step :: "nat list \<Rightarrow> nat \<Rightarrow> token list \<times> lmode option" where
  "escape_step acc c =
     (if c = 34 \<or> c = 92 \<or> c = 47 then ([], Some (LString (c # acc)))
      else if c = 98 then ([], Some (LString (8 # acc)))
      else if c = 102 then ([], Some (LString (12 # acc)))
      else if c = 110 then ([], Some (LString (10 # acc)))
      else if c = 114 then ([], Some (LString (13 # acc)))
      else if c = 116 then ([], Some (LString (9 # acc)))
      else if c = 117 then ([], Some (LHex acc []))
      else ([], None))"

definition hex_value :: "nat \<Rightarrow> nat option" where
  "hex_value c =
     (if is_digit c then Some (c - 48)
      else if 97 \<le> c \<and> c \<le> 102 then Some (c - 87)
      else if 65 \<le> c \<and> c \<le> 70 then Some (c - 55)
      else None)"

definition hex_number :: "nat list \<Rightarrow> nat" where
  "hex_number ds = foldl (\<lambda>a d. 16 * a + d) 0 ds"

definition high_surrogate :: "nat \<Rightarrow> bool" where
  "high_surrogate n = (55296 \<le> n \<and> n < 56320)"

definition low_surrogate :: "nat \<Rightarrow> bool" where
  "low_surrogate n = (56320 \<le> n \<and> n < 57344)"

definition after_escape :: "nat list \<Rightarrow> nat \<Rightarrow> lmode" where
  "after_escape acc n = (if high_surrogate n then LHigh acc n else LString (n # acc))"

definition lex_step :: "lmode \<Rightarrow> nat \<Rightarrow> token list \<times> lmode option" where
  "lex_step m c =
     (case m of
        LIdle \<Rightarrow> idle_step c
      | LKeyword rest t \<Rightarrow>
          (case rest of
             [] \<Rightarrow> ([], None)
           | r # rs \<Rightarrow>
               (if c \<noteq> r then ([], None)
                else if rs = [] then ([t], Some LIdle)
                else ([], Some (LKeyword rs t))))
      | LNumber st lit \<Rightarrow>
          (case num_step st c of
             Some st' \<Rightarrow> ([], Some (LNumber st' (c # lit)))
           | None \<Rightarrow>
               (if st = NSign \<and> c = 73
                then ([], Some (LKeyword (py_str ''nfinity'') (TConstant ''-Infinity'')))
                else if num_final st then (number_end st lit @ fst (idle_step c), snd (idle_step c))
                else (number_end st lit, None)))
      | LString acc \<Rightarrow> string_step acc c
      | LEscape acc \<Rightarrow> escape_step acc c
      | LHex acc ds \<Rightarrow>
          (case hex_value c of
             None \<Rightarrow> ([], None)
           | Some d \<Rightarrow>
               (if length ds = 3 then ([], Some (after_escape acc (hex_number (ds @ [d]))))
                else ([], Some (LHex acc (ds @ [d])))))
      | LHigh acc hi \<Rightarrow>
          (if c = 92 then ([], Some (LHighEscape acc hi)) else string_step (hi # acc) c)
      | LHighEscape acc hi \<Rightarrow>
          (if c = 117 then ([], Some (LHighHex acc hi [])) else escape_step (hi # acc) c)
      | LHighHex acc hi ds \<Rightarrow>
          (case hex_value c of
             None \<Rightarrow> ([], None)
           | Some d \<Rightarrow>
               (if length ds = 3 then
                  (let lo = hex_number (ds @ [d]) in
                   if low_surrogate lo
                   then ([], Some (LString ((65536 + (hi - 55296) * 1024 + (lo - 56320)) # acc)))
                   else ([], Some (after_escape (hi # acc) lo)))
                else ([], Some (LHighHex acc hi (ds @ [d]))))))"

text \<open>At the end of the text: the tokens still to come, and whether the text may end here.\<close>

definition lex_end :: "lmode \<Rightarrow> token list \<times> bool" where
  "lex_end m =
     (case m of
        LIdle \<Rightarrow> ([], True)
      | LNumber st lit \<Rightarrow> (number_end st lit, num_final st)
      | _ \<Rightarrow> ([], False))"

text \<open>\<open>int(literal)\<close>, for a literal of the JSON grammar.\<close>

definition nat_of_digits :: "nat list \<Rightarrow> nat" where
  "nat_of_digits ds = foldl (\<lambda>a d. 10 * a + (d - 48)) 0 ds"

definition int_of_literal :: "nat list \<Rightarrow> int" where
  "int_of_literal lit =
     (case lit of
        [] \<Rightarrow> 0
      | c # cs \<Rightarrow> (if c = 45 then - int (nat_of_digits cs) else int (nat_of_digits lit)))"

definition number_value :: "interpreter \<Rightarrow> bool \<Rightarrow> nat list \<Rightarrow> exn + json" where
  "number_value py is_int lit =
     (if \<not> is_int then Inr (JFloat (map char_of lit))
      else if exceeds_digits py (length (filter is_digit lit)) then Inl digits_error
      else Inr (JInt (int_of_literal lit)))"

text \<open>\<open>dict(pairs)\<close>: a key seen again keeps its place and takes the later value.\<close>

fun dict_set :: "'k \<Rightarrow> 'v \<Rightarrow> ('k \<times> 'v) list \<Rightarrow> ('k \<times> 'v) list" where
  "dict_set k v [] = [(k, v)]"
| "dict_set k v (p # ps) = (if fst p = k then (k, v) # ps else p # dict_set k v ps)"

definition dict_of_pairs :: "('k \<times> 'v) list \<Rightarrow> ('k \<times> 'v) list" where
  "dict_of_pairs ps = foldl (\<lambda>d p. dict_set (fst p) (snd p) d) [] ps"

datatype frame =
    FArr "json list"
  | FObj "(nat list \<times> json) list"
  | FKey "(nat list \<times> json) list" "nat list"

datatype pstate = PValue | PValueOrClose | PKeyOrClose | PKey | PColon | PAfter | PDone json

definition expects_value :: "pstate \<Rightarrow> bool" where
  "expects_value st = (st = PValue \<or> st = PValueOrClose)"

definition in_string :: "lmode \<Rightarrow> bool" where
  "in_string m =
     (case m of
        LString acc \<Rightarrow> True
      | LEscape acc \<Rightarrow> True
      | LHex acc ds \<Rightarrow> True
      | LHigh acc hi \<Rightarrow> True
      | LHighEscape acc hi \<Rightarrow> True
      | LHighHex acc hi ds \<Rightarrow> True
      | _ \<Rightarrow> False)"

text \<open>
  What is raised for a text that cannot be accepted, found in lexer mode \<open>m\<close> and parser
  state \<open>st\<close> with the containers \<open>stk\<close> open: extra data after the value is reported
  one call above the scanner, a missing value at the scanner's own call, and anything
  else from as deep as the containers that are open.
\<close>

definition syntax_error :: "interpreter \<Rightarrow> lmode \<Rightarrow> pstate \<Rightarrow> frame list \<Rightarrow> exn" where
  "syntax_error py m st stk =
     (case st of
        PDone v \<Rightarrow> (if decoder_depth py < 1 then RecursionError else JSONDecodeError)
      | _ \<Rightarrow>
          (if expects_value st \<and> \<not> in_string m
           then (if decoder_depth py < 2 then RecursionError else JSONDecodeError)
           else if decoder_depth py < length stk + 3 then RecursionError
           else JSONDecodeError))"

definition complete :: "json \<Rightarrow> frame list \<Rightarrow> exn + (pstate \<times> frame list)" where
  "complete v stk =
     (case stk of
        [] \<Rightarrow> Inr (PDone v, [])
      | FArr es # stk' \<Rightarrow> Inr (PAfter, FArr (v # es) # stk')
      | FKey ps k # stk' \<Rightarrow> Inr (PAfter, FObj ((k, v) # ps) # stk')
      | FObj ps # stk' \<Rightarrow> Inl JSONDecodeError)"

definition value_step ::
  "interpreter \<Rightarrow> pstate \<Rightarrow> frame list \<Rightarrow> token \<Rightarrow> exn + (pstate \<times> frame list)" where
  "value_step py st stk t =
     (case t of
        TScalar v \<Rightarrow> complete v stk
      | TNumber is_int lit \<Rightarrow>
          (case number_value py is_int lit of Inl e \<Rightarrow> Inl e | Inr v \<Rightarrow> complete v stk)
      | TConstant name \<Rightarrow>
          (if decoder_depth py \<le> length stk then Inl RecursionError
           else complete (JFloat name) stk)
      | TLBrack \<Rightarrow>
          (if decoder_depth py \<le> length stk then Inl RecursionError
           else Inr (PValueOrClose, FArr [] # stk))
      | TLBrace \<Rightarrow>
          (if decoder_depth py \<le> length stk then Inl RecursionError
           else Inr (PKeyOrClose, FObj [] # stk))
      | TRBrack \<Rightarrow>
          (case stk of
             FArr [] # stk' \<Rightarrow>
               (if st = PValueOrClose then complete (JArr []) stk'
                else Inl (syntax_error py LIdle st stk))
           | _ \<Rightarrow> Inl (syntax_error py LIdle st stk))
      | _ \<Rightarrow> Inl (syntax_error py LIdle st stk))"

definition key_step ::
  "interpreter \<Rightarrow> pstate \<Rightarrow> frame list \<Rightarrow> token \<Rightarrow> exn + (pstate \<times> frame list)" where
  "key_step py st stk t =
     (case stk of
        FObj ps # stk' \<Rightarrow>
          (case t of
             TScalar (JStr k) \<Rightarrow> Inr (PColon, FKey ps k # stk')
           | TRBrace \<Rightarrow>
               (if st = PKeyOrClose then complete (JObj []) stk'
                else Inl (syntax_error py LIdle st stk))
           | _ \<Rightarrow> Inl (syntax_error py LIdle st stk))
      | _ \<Rightarrow> Inl (syntax_error py LIdle st stk))"

definition after_step ::
  "interpreter \<Rightarrow> frame list \<Rightarrow> token \<Rightarrow> exn + (pstate \<times> frame list)" where
  "after_step py stk t =
     (case stk of
        FArr es # stk' \<Rightarrow>
          (case t of
             TComma \<Rightarrow> Inr (PValue, stk)
           | TRBrack \<Rightarrow> complete (JArr (rev es)) stk'
           | _ \<Rightarrow> Inl (syntax_error py LIdle PAfter stk))
      | FObj ps # stk' \<Rightarrow>
          (case t of
             TComma \<Rightarrow> Inr (PKey, stk)
           | TRBrace \<Rightarrow> complete (JObj (dict_of_pairs (rev ps))) stk'
           | _ \<Rightarrow> Inl (syntax_error py LIdle PAfter stk))
      | _ \<Rightarrow> Inl (syntax_error py LIdle PAfter stk))"

definition parse_step ::
  "interpreter \<Rightarrow> pstate \<Rightarrow> frame list \<Rightarrow> token \<Rightarrow> exn + (pstate \<times> frame list)" where
  "parse_step py st stk t =
     (case st of
        PValue \<Rightarrow> value_step py st stk t
      | PValueOrClose \<Rightarrow> value_step py st stk t
      | PKeyOrClose \<Rightarrow> key_step py st stk t
      | PKey \<Rightarrow> key_step py st stk t
      | PColon \<Rightarrow> (if t = TColon then Inr (PValue, stk) else Inl (syntax_error py LIdle st stk))
      | PAfter \<Rightarrow> after_step py stk t
      | PDone v \<Rightarrow> Inl (syntax_error py LIdle st stk))"

fun feed ::
  "interpreter \<Rightarrow> pstate \<Rightarrow> frame list \<Rightarrow> token list \<Rightarrow> exn + (pstate \<times> frame list)" where
  "feed py st stk [] = Inr (st, stk)"
| "feed py st stk (t # ts) =
     (case parse_step py st stk t of
        Inl e \<Rightarrow> Inl e
      | Inr (st', stk') \<Rightarrow> feed py st' stk' ts)"

fun decode :: "interpreter \<Rightarrow> lmode \<Rightarrow> pstate \<Rightarrow> frame list \<Rightarrow> nat list \<Rightarrow> exn + json" where
  "decode py m st stk [] =
     (case feed py st stk (fst (lex_end m)) of
        Inl e \<Rightarrow> Inl e
      | Inr (st', stk') \<Rightarrow>
          (case st' of
             PDone v \<Rightarrow> (if snd (lex_end m) then Inr v else Inl (syntax_error py m st' stk'))
           | _ \<Rightarrow> Inl (syntax_error py m st' stk')))"
| "decode py m st stk (c # cs) =
     (case feed py st stk (fst (lex_step m c)) of
        Inl e \<Rightarrow> Inl e
      | Inr (st', stk') \<Rightarrow>
          (case snd (lex_step m c) of
             None \<Rightarrow> Inl (syntax_error py m st' stk')
           | Some m' \<Rightarrow> decode py m' st' stk' cs))"

text \<open>\<open>json.loads\<close> itself refuses a text that begins with a byte order mark.\<close>

definition json_loads :: "interpreter \<Rightarrow> nat list \<Rightarrow> exn + json" where
  "json_loads py text =
     (if take 1 text = [65279] then Inl JSONDecodeError else decode py LIdle PValue [] text)"

section \<open>Paths\<close>

text \<open>\<open>Storage.get_filepath\<close>: the f-string \<open>f"{root}/{obj_id}.{obj_extension}"\<close>.\<close>

definition get_filepath :: "environment_vars \<Rightarrow> string \<Rightarrow> string \<Rightarrow> string \<Rightarrow> exn + string" where
  "get_filepath env obj_type obj_id obj_extension =
     (case getattr env obj_type of
        Inl e \<Rightarrow> Inl e
      | Inr root \<Rightarrow> Inr (root @ ''/'' @ obj_id @ ''.'' @ obj_extension))"

text \<open>Python's \<open>s.split('/')\<close>: the pieces between slashes, empty pieces kept.\<close>

fun split_slash :: "string \<Rightarrow> string list" where
  "split_slash [] = [[]]"
| "split_slash (c # cs) =
     (if c = CHR ''/'' then [] # split_slash cs
      else (case split_slash cs of [] \<Rightarrow> [[c]] | w # ws \<Rightarrow> (c # w) # ws))"

fun join_slash :: "string list \<Rightarrow> string" where
  "join_slash [] = []"
| "join_slash [x] = x"
| "join_slash (x # y # ys) = x @ ''/'' @ join_slash (y # ys)"

text \<open>
  \<open>pathlib\<close> reads a path into an anchor and its parts, dropping empty and \<open>.\<close> segments
  (and with them any trailing slash); \<open>..\<close> is kept. Exactly two leading slashes are
  kept, three or more are one. \<open>str_Path s\<close> is \<open>str(Path(s))\<close> on POSIX.
\<close>

definition path_parts :: "string \<Rightarrow> string list" where
  "path_parts s = filter (\<lambda>x. x \<noteq> [] \<and> x \<noteq> ''.'') (split_slash s)"

definition path_anchor :: "string \<Rightarrow> string" where
  "path_anchor s =
     (if take 2 s = ''//'' \<and> take 3 s \<noteq> ''///'' then ''//''
      else if take 1 s = ''/'' then ''/'' else [])"

definition str_Path :: "string \<Rightarrow> string" where
  "str_Path s =
     (if path_anchor s = [] \<and> path_parts s = [] then ''.''
      else path_anchor s @ join_slash (path_parts s))"

section \<open>The filesystem\<close>

text \<open>
  The state the storage layer works on: a tree of directories and regular files, as a
  list of absolute locations (the names from the root down) with what is there, in the
  order a directory scan yields them. The root is always a directory. A file has its
  bytes and the time of its last change; a directory has a time only. A directory is
  open to the process or locked (no permission at all: nothing can be looked up in it);
  where the process can look a name up it may also create and remove it, and every file
  it reaches it may read and write. There are no links. Names are resolved as Linux
  does: from the root or the working directory, one segment at a time, each step through
  an existing directory that is open, \<open>.\<close> and \<open>..\<close> understood, repeated slashes as one, a
  trailing slash asking for a directory. A name has at most \<open>name_max\<close> bytes, and a path
  fewer than \<open>path_max\<close>.
\<close>

datatype node = Dir nat | File string nat

record filesystem =
  nodes :: "(string list \<times> node) list"
  cwd :: "string list"
  clock :: nat
  locked :: "string list list"

definition name_max :: nat where
  "name_max = 255"

definition path_max :: nat where
  "path_max = 4096"

definition lookup :: "filesystem \<Rightarrow> string list \<Rightarrow> node option" where
  "lookup fs loc = (if loc = [] then Some (Dir 0) else map_of (nodes fs) loc)"

definition is_dir :: "filesystem \<Rightarrow> string list \<Rightarrow> bool" where
  "is_dir fs loc = (case lookup fs loc of Some (Dir t) \<Rightarrow> True | _ \<Rightarrow> False)"

definition searchable :: "filesystem \<Rightarrow> string list \<Rightarrow> bool" where
  "searchable fs loc = (loc \<notin> set (locked fs))"

definition components :: "string \<Rightarrow> string list" where
  "components p = filter (\<lambda>x. x \<noteq> []) (split_slash p)"

definition step :: "string list \<Rightarrow> string \<Rightarrow> string list" where
  "step cur c = (if c = ''.'' then cur else if c = ''..'' then butlast cur else cur @ [c])"

fun walk :: "filesystem \<Rightarrow> string list \<Rightarrow> string list \<Rightarrow> errno + string list" where
  "walk fs cur [] = Inr cur"
| "walk fs cur (c # cs) =
     (if \<not> searchable fs cur then Inl EACCES
      else if name_max < length c then Inl ENAMETOOLONG
      else
        (case lookup fs (step cur c) of
           Some (Dir t) \<Rightarrow> walk fs (step cur c) cs
         | Some (File b t) \<Rightarrow> Inl ENOTDIR
         | None \<Rightarrow> Inl ENOENT))"

text \<open>
  The directory in which the last segment of a path is looked up: the walk has to arrive
  there, and the directory must be open.
\<close>

definition walk_in :: "filesystem \<Rightarrow> string list \<Rightarrow> string list \<Rightarrow> errno + string list" where
  "walk_in fs cur cs =
     (case walk fs cur cs of
        Inl e \<Rightarrow> Inl e
      | Inr d \<Rightarrow> (if searchable fs d then Inr d else Inl EACCES))"

text \<open>
  \<open>lookup_parent fs p\<close>: the directory that holds the last segment of \<open>p\<close>, or \<open>None\<close> when
  \<open>p\<close> is the root itself.
\<close>

definition lookup_parent :: "filesystem \<Rightarrow> string \<Rightarrow> errno + string list option" where
  "lookup_parent fs p =
     (let start = (if take 1 p = ''/'' then [] else cwd fs); cs = components p in
      if p = [] then Inl ENOENT
      else if path_max \<le> length p then Inl ENAMETOOLONG
      else if \<not> is_dir fs start then Inl ENOENT
      else if cs = [] then Inr None
      else
        (case walk_in fs start (butlast cs) of
           Inl e \<Rightarrow> Inl e
         | Inr d \<Rightarrow> Inr (Some d)))"

text \<open>
  \<open>namei fs p\<close>: where the last segment of \<open>p\<close> lies, and whether \<open>p\<close> can only name a
  directory (it ends in a slash, in \<open>.\<close> or in \<open>..\<close>). What is at that place, if anything,
  is for the caller to look up.
\<close>

definition namei :: "filesystem \<Rightarrow> string \<Rightarrow> errno + (string list \<times> bool)" where
  "namei fs p =
     (case lookup_parent fs p of
        Inl e \<Rightarrow> Inl e
      | Inr None \<Rightarrow> Inr ([], True)
      | Inr (Some d) \<Rightarrow>
          (let c = last (components p) in
           if c = ''.'' \<or> c = ''..'' then Inr (step d c, True)
           else if name_max < length c then Inl ENAMETOOLONG
           else Inr (d @ [c], last p = CHR ''/'')))"

definition os_stat :: "filesystem \<Rightarrow> string \<Rightarrow> errno + node" where
  "os_stat fs p =
     (case namei fs p of
        Inl e \<Rightarrow> Inl e
      | Inr (loc, must_be_dir) \<Rightarrow>
          (case lookup fs loc of
             None \<Rightarrow> Inl ENOENT
           | Some (Dir t) \<Rightarrow> Inr (Dir t)
           | Some (File b t) \<Rightarrow> (if must_be_dir then Inl ENOTDIR else Inr (File b t))))"

text \<open>\<open>open(p, O_RDONLY)\<close> and all the bytes read; Python refuses a directory it has opened.\<close>

definition os_read :: "filesystem \<Rightarrow> string \<Rightarrow> errno + string" where
  "os_read fs p =
     (case namei fs p of
        Inl e \<Rightarrow> Inl e
      | Inr (loc, must_be_dir) \<Rightarrow>
          (case lookup fs loc of
             None \<Rightarrow> Inl ENOENT
           | Some (Dir t) \<Rightarrow> (if searchable fs loc then Inl EISDIR else Inl EACCES)
           | Some (File b t) \<Rightarrow> (if must_be_dir then Inl ENOTDIR else Inr b)))"

text \<open>Adding or removing an entry changes the directory that holds it.\<close>

definition touch :: "string list \<Rightarrow> nat \<Rightarrow> (string list \<times> node) list \<Rightarrow> (string list \<times> node) list" where
  "touch loc t ns = (case map_of ns loc of Some (Dir t0) \<Rightarrow> dict_set loc (Dir t) ns | _ \<Rightarrow> ns)"

text \<open>
  \<open>open(p, O_WRONLY | O_CREAT | O_TRUNC)\<close>, the bytes written, the file closed. With a
  trailing slash the call is refused as soon as the directory of the last segment is
  found.
\<close>

definition os_write :: "filesystem \<Rightarrow> string \<Rightarrow> string \<Rightarrow> errno + filesystem" where
  "os_write fs p bytes =
     (case lookup_parent fs p of
        Inl e \<Rightarrow> Inl e
      | Inr parent \<Rightarrow>
          (if last p = CHR ''/'' then Inl EISDIR
           else
             (case namei fs p of
                Inl e \<Rightarrow> Inl e
              | Inr (loc, must_be_dir) \<Rightarrow>
                  (if must_be_dir then Inl EISDIR
                   else
                     (case lookup fs loc of
                        Some (Dir t) \<Rightarrow> Inl EISDIR
                      | Some (File b t) \<Rightarrow>
                          Inr (fs\<lparr>nodes := dict_set loc (File bytes (clock fs)) (nodes fs),
                                  clock := Suc (clock fs)\<rparr>)
                      | None \<Rightarrow>
                          Inr (fs\<lparr>nodes := dict_set loc (File bytes (clock fs))
                                             (touch (butlast loc) (clock fs) (nodes fs)),
                                  clock := Suc (clock fs)\<rparr>))))))"

definition os_unlink :: "filesystem \<Rightarrow> string \<Rightarrow> errno + filesystem" where
  "os_unlink fs p =
     (case namei fs p of
        Inl e \<Rightarrow> Inl e
      | Inr (loc, must_be_dir) \<Rightarrow>
          (case lookup fs loc of
             None \<Rightarrow> Inl ENOENT
           | Some (Dir t) \<Rightarrow> Inl EISDIR
           | Some (File b t) \<Rightarrow>
               (if must_be_dir then Inl ENOTDIR
                else Inr (fs\<lparr>nodes := touch (butlast loc) (clock fs)
                                         (filter (\<lambda>kv. fst kv \<noteq> loc) (nodes fs)),
                             clock := Suc (clock fs)\<rparr>))))"

subsection \<open>The calls of the Python library\<close>

text \<open>
  Python raises \<open>ValueError\<close> for a path with a null character before it asks the system,
  and turns the system's error numbers into exceptions: the subclasses of \<open>OSError\<close> for
  the error numbers that have one, \<open>OSError\<close> itself for the others.
\<close>

definition os_error :: "errno \<Rightarrow> string \<Rightarrow> exn" where
  "os_error e p =
     (case e of
        ENOENT \<Rightarrow> FileNotFoundError p
      | ENOTDIR \<Rightarrow> NotADirectoryError p
      | EISDIR \<Rightarrow> IsADirectoryError p
      | EACCES \<Rightarrow> PermissionError p
      | _ \<Rightarrow> OSError e p)"

definition has_null :: "string \<Rightarrow> bool" where
  "has_null p = (CHR 0x00 \<in> set p)"

text \<open>\<open>with open(p, "w") as f: f.write(text)\<close>, for ASCII text.\<close>

definition open_write :: "filesystem \<Rightarrow> string \<Rightarrow> string \<Rightarrow> exn + filesystem" where
  "open_write fs p text =
     (if has_null p then Inl (ValueError ''embedded null byte'')
      else (case os_write fs p text of Inl e \<Rightarrow> Inl (os_error e p) | Inr fs' \<Rightarrow> Inr fs'))"

text \<open>\<open>with open(p, "r", encoding="utf-8") as f\<close>: the bytes of the file, still to be decoded.\<close>

definition open_read :: "filesystem \<Rightarrow> string \<Rightarrow> exn + string" where
  "open_read fs p =
     (if has_null p then Inl (ValueError ''embedded null byte'')
      else (case os_read fs p of Inl e \<Rightarrow> Inl (os_error e p) | Inr b \<Rightarrow> Inr b))"

text \<open>\<open>json.load(f)\<close> on a file opened so: decode the bytes, then the text.\<close>

definition json_load :: "interpreter \<Rightarrow> string \<Rightarrow> exn + json" where
  "json_load py bytes =
     (case utf8_decode bytes of
        None \<Rightarrow> Inl UnicodeDecodeError
      | Some text \<Rightarrow> json_loads py text)"

text \<open>
  \<open>Path(p).exists()\<close>: \<open>stat\<close> on the path as \<open>pathlib\<close> holds it. A path that cannot be
  encoded is \<open>False\<close>, and so is a failure of \<open>stat\<close> with one of the error numbers that
  \<open>pathlib\<close> ignores; any other failure of \<open>stat\<close> is raised again.
\<close>

definition ignore_error :: "errno \<Rightarrow> bool" where
  "ignore_error e = (e = ENOENT \<or> e = ENOTDIR \<or> e = EBADF \<or> e = ELOOP)"

definition Path_exists :: "filesystem \<Rightarrow> string \<Rightarrow> exn + bool" where
  "Path_exists fs p =
     (if has_null p then Inr False
      else
        (case os_stat fs (str_Path p) of
           Inr n \<Rightarrow> Inr True
         | Inl e \<Rightarrow> (if ignore_error e then Inr False else Inl (os_error e (str_Path p)))))"

definition Path_unlink :: "filesystem \<Rightarrow> string \<Rightarrow> exn + filesystem" where
  "Path_unlink fs p =
     (if has_null p then Inl (ValueError ''embedded null byte'')
      else
        (case os_unlink fs (str_Path p) of
           Inl e \<Rightarrow> Inl (os_error e (str_Path p))
         | Inr fs' \<Rightarrow> Inr fs'))"

text \<open>\<open>os.path.getctime(p)\<close>: the time of the last change, of a file or a directory.\<close>

definition getctime :: "filesystem \<Rightarrow> string \<Rightarrow> exn + nat" where
  "getctime fs p =
     (if has_null p then Inl (ValueError ''embedded null byte'')
      else
        (case os_stat fs p of
           Inl e \<Rightarrow> Inl (os_error e p)
         | Inr (Dir t) \<Rightarrow> Inr t
         | Inr (File b t) \<Rightarrow> Inr t))"

text \<open>
  \<open>os.path.exists(p)\<close>: whether the path, as it is written, names something; every
  failure of \<open>stat\<close> is \<open>False\<close>.
\<close>

definition os_path_exists :: "filesystem \<Rightarrow> string \<Rightarrow> bool" where
  "os_path_exists fs p =
     (if has_null p then False
      else (case os_stat fs p of Inl e \<Rightarrow> False | Inr n \<Rightarrow> True))"

section \<open>The document store\<close>

text \<open>
  \<open>Storage.create_object\<close> opens the file, which empties it, and then has the document
  encoded and written. When the encoder raises, the exception is the outcome; the file
  is left with what had been written until then, which the outcome does not show.
\<close>

definition create_object ::
  "interpreter \<Rightarrow> environment_vars \<Rightarrow> filesystem \<Rightarrow> string \<Rightarrow> string \<Rightarrow> json \<Rightarrow> string
     \<Rightarrow> exn + filesystem" where
  "create_object py env fs obj_type obj_id obj_info obj_extension =
     (case getattr env obj_type of
        Inl e \<Rightarrow> Inl e
      | Inr root \<Rightarrow>
          (case open_write fs (root @ ''/'' @ obj_id @ ''.'' @ obj_extension) [] of
             Inl e \<Rightarrow> Inl e
           | Inr fs0 \<Rightarrow>
               (case json_dumps py obj_info of
                  Inl e \<Rightarrow> Inl e
                | Inr text \<Rightarrow>
                    open_write fs (root @ ''/'' @ obj_id @ ''.'' @ obj_extension) text)))"

definition read_object ::
  "interpreter \<Rightarrow> environment_vars \<Rightarrow> filesystem \<Rightarrow> string \<Rightarrow> string \<Rightarrow> string \<Rightarrow> exn + json" where
  "read_object py env fs obj_type obj_id obj_extension =
     (case getattr env obj_type of
        Inl e \<Rightarrow> Inl e
      | Inr root \<Rightarrow>
          (case open_read fs (root @ ''/'' @ obj_id @ ''.'' @ obj_extension) of
             Inl e \<Rightarrow> Inl e
           | Inr bytes \<Rightarrow> json_load py bytes))"

definition delete_object ::
  "environment_vars \<Rightarrow> filesystem \<Rightarrow> string \<Rightarrow> string \<Rightarrow> string \<Rightarrow> exn + filesystem" where
  "delete_object env fs obj_type obj_id obj_extension =
     (case getattr env obj_type of
        Inl e \<Rightarrow> Inl e
      | Inr root \<Rightarrow>
          (case Path_exists fs (root @ ''/'' @ obj_id @ ''.'' @ obj_extension) of
             Inl e \<Rightarrow> Inl e
           | Inr True \<Rightarrow> Path_unlink fs (root @ ''/'' @ obj_id @ ''.'' @ obj_extension)
           | Inr False \<Rightarrow>
               Inl (RuntimeError (''No '' @ obj_type @ '' found with ID: '' @ obj_id))))"

text \<open>
  The creation time is returned as the timestamp \<open>getctime\<close> gives; its rendering as a
  local calendar time by \<open>datetime.fromtimestamp\<close> is not modelled.
\<close>

definition get_creation_datetime ::
  "environment_vars \<Rightarrow> filesystem \<Rightarrow> string \<Rightarrow> string \<Rightarrow> string \<Rightarrow> exn + nat" where
  "get_creation_datetime env fs obj_type obj_id obj_extension =
     (case getattr env obj_type of
        Inl e \<Rightarrow> Inl e
      | Inr root \<Rightarrow> getctime fs (root @ ''/'' @ obj_id @ ''.'' @ obj_extension))"

definition is_object_exists ::
  "environment_vars \<Rightarrow> filesystem \<Rightarrow> string \<Rightarrow> string \<Rightarrow> string \<Rightarrow> exn + bool" where
  "is_object_exists env fs obj_type obj_id obj_extension =
     (case getattr env obj_type of
        Inl e \<Rightarrow> Inl e
      | Inr root \<Rightarrow> Path_exists fs (root @ ''/'' @ obj_id @ ''.'' @ obj_extension))"

text \<open>
  A path whose last segment is a name: it does not end in a slash or in a \<open>.\<close> segment.
\<close>

definition ends_in_entry :: "string \<Rightarrow> bool" where
  "ends_in_entry p = (last (split_slash p) \<noteq> [] \<and> last (split_slash p) \<noteq> ''.'')"

text \<open>
  A path within the limits of the system: fewer than \<open>path_max\<close> bytes, and no segment
  of more than \<open>name_max\<close>.
\<close>

definition within_limits :: "string \<Rightarrow> bool" where
  "within_limits p = (length p < path_max \<and> list_all (\<lambda>c. length c \<le> name_max) (components p))"

text \<open>
  The spec's error kind for a file that is no JSON document: the file cannot be decoded,
  or the text cannot be parsed.
\<close>

definition is_FormatError :: "exn \<Rightarrow> bool" where
  "is_FormatError e = (e = JSONDecodeError \<or> e = UnicodeDecodeError)"

section \<open>The relational accessor\<close>

text \<open>
  \<open>DatabaseManager\<close> and \<open>DBAccessor\<close> are classes of the repository that are not part of
  the sources at hand. They are taken as a parameter: the engine, a record of their
  methods over an engine state \<open>'db\<close> and handles \<open>'h\<close>. A method returns its outcome and
  the engine state it leaves; \<open>create_connection\<close> returns \<open>None\<close> for Python's \<open>None\<close>.
  An accessor reference is a \<open>'h option\<close>: \<open>None\<close> is the uninitialised reference, which is
  what \<open>if database_instance:\<close> tests (an accessor object itself is truthy).
\<close>

record ('h, 'v, 'db) db_engine =
  create_connection :: "string \<Rightarrow> 'db \<Rightarrow> (exn + 'h option) \<times> 'db"
  close_connection :: "'h \<Rightarrow> 'db \<Rightarrow> (exn + unit) \<times> 'db"
  create_table :: "'h \<Rightarrow> string \<Rightarrow> 'db \<Rightarrow> (exn + unit) \<times> 'db"
  create_record :: "'h \<Rightarrow> 'v list \<Rightarrow> string \<Rightarrow> 'db \<Rightarrow> (exn + unit) \<times> 'db"
  update_record :: "'h \<Rightarrow> 'v list \<Rightarrow> string \<Rightarrow> 'db \<Rightarrow> (exn + unit) \<times> 'db"

definition create_database_connection ::
  "('h, 'v, 'db) db_engine \<Rightarrow> environment_vars \<Rightarrow> string \<Rightarrow> string \<Rightarrow> string \<Rightarrow> 'db
     \<Rightarrow> (exn + 'h) \<times> 'db" where
  "create_database_connection eng env obj_type obj_id obj_extension db =
     (case get_filepath env obj_type obj_id obj_extension of
        Inl e \<Rightarrow> (Inl e, db)
      | Inr database_file \<Rightarrow>
          (case create_connection eng (str_Path database_file) db of
             (Inl e, db') \<Rightarrow> (Inl e, db')
           | (Inr None, db') \<Rightarrow> (Inl (RuntimeError ''db instance is not initialised.''), db')
           | (Inr (Some database_instance), db') \<Rightarrow> (Inr database_instance, db')))"

definition close_database_connection ::
  "('h, 'v, 'db) db_engine \<Rightarrow> 'h option \<Rightarrow> 'db \<Rightarrow> (exn + unit) \<times> 'db" where
  "close_database_connection eng database_instance db =
     (case database_instance of
        Some h \<Rightarrow> close_connection eng h db
      | None \<Rightarrow> (Inl (RuntimeError ''Database instance is not initialised.''), db))"

definition create_database_table ::
  "('h, 'v, 'db) db_engine \<Rightarrow> 'h option \<Rightarrow> string \<Rightarrow> 'db \<Rightarrow> (exn + unit) \<times> 'db" where
  "create_database_table eng database_instance sql_create_table db =
     (case database_instance of
        Some h \<Rightarrow> create_table eng h sql_create_table db
      | None \<Rightarrow> (Inl (RuntimeError ''Database instance is not initialised.''), db))"

definition create_database_record ::
  "('h, 'v, 'db) db_engine \<Rightarrow> 'h option \<Rightarrow> 'v list \<Rightarrow> string \<Rightarrow> 'db \<Rightarrow> (exn + unit) \<times> 'db" where
  "create_database_record eng database_instance data sql_create_record db =
     (case database_instance of
        Some h \<Rightarrow> create_record eng h data sql_create_record db
      | None \<Rightarrow> (Inl (RuntimeError ''Database instance is not initialised.''), db))"

definition update_database_record ::
  "('h, 'v, 'db) db_engine \<Rightarrow> 'h option \<Rightarrow> 'v list \<Rightarrow> string \<Rightarrow> 'db \<Rightarrow> (exn + unit) \<times> 'db" where
  "update_database_record eng database_instance data sql_update_record db =
     (case database_instance of
        Some h \<Rightarrow> update_record eng h data sql_update_record db
      | None \<Rightarrow> (Inl (RuntimeError ''Database instance is not initialised.''), db))"

text \<open>
  The spec's error kind for these guards: an \<open>InitializationError\<close> is the
  \<open>RuntimeError\<close> whose message says that the instance is not initialised.
\<close>

definition is_InitializationError :: "exn \<Rightarrow> bool" where
  "is_InitializationError e =
     (e = RuntimeError ''Database instance is not initialised.''
      \<or> e = RuntimeError ''db instance is not initialised.'')"

section \<open>The HTTP routes of the session service\<close>

text \<open>
  \<open>SessionService\<close>, \<open>SessionException\<close> and the request and response schemas are classes
  of the repository that are not part of the sources at hand. The service is taken as a
  parameter: a record of its methods over a service state \<open>'s\<close>. A call returns what it
  returned or raised, and the state it leaves. \<open>SessionException msg error_code\<close> carries
  the two attributes the routes read; any other exception is \<open>OtherException\<close>. The
  constructor of the schema \<open>SessionResponseModel\<close> is a parameter of the two routes that
  call it: given the session, or \<open>None\<close>, it returns the model or raises what the schema's
  validation raises, which is no \<open>SessionException\<close>.
\<close>

datatype svc_exn = SessionException string string | OtherException string

datatype route_exn = HTTPException nat string | Unhandled string

record ('f, 'h) session_data =
  session_id :: string
  chat_history :: 'h
  metadata :: 'f

record ('s, 'm, 'f, 'h, 'r, 't, 'd) session_service =
  get_sessions :: "'s \<Rightarrow> (svc_exn + 'm list) \<times> 's"
  get_session :: "string \<Rightarrow> 's \<Rightarrow> (svc_exn + ('f, 'h) session_data option) \<times> 's"
  get_session_chat_history :: "string \<Rightarrow> 's \<Rightarrow> (svc_exn + 'h) \<times> 's"
  create_session :: "'d \<Rightarrow> 's \<Rightarrow> (svc_exn + ('f, 'h) session_data) \<times> 's"
  send_prompt :: "string \<Rightarrow> string \<Rightarrow> 's \<Rightarrow> (svc_exn + 'r) \<times> 's"
  get_prompt_templates :: "'s \<Rightarrow> (svc_exn + 't list) \<times> 's"
  select_prompt_template :: "string \<Rightarrow> string \<Rightarrow> 's \<Rightarrow> (svc_exn + bool) \<times> 's"

text \<open>
  The \<open>except SessionException as e\<close> block, which every route repeats word for word.
  An exception of another class is not caught and leaves the route as it is.
\<close>

definition except_SessionException :: "svc_exn \<Rightarrow> route_exn" where
  "except_SessionException e =
     (case e of
        SessionException msg error_code \<Rightarrow>
          (if error_code = ''FileNotFound'' then HTTPException 404 msg
           else if error_code = ''ValidationError'' then HTTPException 400 msg
           else HTTPException 500 msg)
      | OtherException x \<Rightarrow> Unhandled x)"

definition get_all_sessions ::
  "('s, 'm, 'f, 'h, 'r, 't, 'd) session_service \<Rightarrow> 's \<Rightarrow> (route_exn + 'm list) \<times> 's" where
  "get_all_sessions svc s =
     (case get_sessions svc s of
        (Inl e, s') \<Rightarrow> (Inl (except_SessionException e), s')
      | (Inr sessions, s') \<Rightarrow> (Inr sessions, s'))"

definition get_session_by_session_id ::
  "('s, 'm, 'f, 'h, 'r, 't, 'd) session_service \<Rightarrow> (('f, 'h) session_data option \<Rightarrow> string + 'w)
     \<Rightarrow> string \<Rightarrow> bool \<Rightarrow> 's \<Rightarrow> (route_exn + 'w) \<times> 's" where
  "get_session_by_session_id svc response_model sid include_history s =
     (case get_session svc sid s of
        (Inl e, s1) \<Rightarrow> (Inl (except_SessionException e), s1)
      | (Inr session_data0, s1) \<Rightarrow>
          (case (if include_history then
                   (case get_session_chat_history svc sid s1 of
                      (Inl e, s2) \<Rightarrow> (Inl e, s2)
                    | (Inr history, s2) \<Rightarrow>
                        (Inr (case session_data0 of
                                Some d \<Rightarrow> Some (d\<lparr>chat_history := history\<rparr>)
                              | None \<Rightarrow> None), s2))
                 else (Inr session_data0, s1)) of
             (Inl e, s2) \<Rightarrow> (Inl (except_SessionException e), s2)
           | (Inr session_data, s2) \<Rightarrow>
               (case session_data of
                  Some d \<Rightarrow>
                    (case response_model (Some d) of
                       Inl x \<Rightarrow> (Inl (Unhandled x), s2)
                     | Inr model \<Rightarrow> (Inr model, s2))
                | None \<Rightarrow> (Inl (HTTPException 404 ''Session not found''), s2))))"

definition create ::
  "('s, 'm, 'f, 'h, 'r, 't, 'd) session_service \<Rightarrow> (('f, 'h) session_data option \<Rightarrow> string + 'w)
     \<Rightarrow> 'd \<Rightarrow> 's \<Rightarrow> (route_exn + 'w) \<times> 's" where
  "create svc response_model session_dto s =
     (case create_session svc session_dto s of
        (Inl e, s1) \<Rightarrow> (Inl (except_SessionException e), s1)
      | (Inr new_session, s1) \<Rightarrow>
          (case get_session svc (session_id new_session) s1 of
             (Inl e, s2) \<Rightarrow> (Inl (except_SessionException e), s2)
           | (Inr updated_with_chat_ids, s2) \<Rightarrow>
               (case response_model updated_with_chat_ids of
                  Inl x \<Rightarrow> (Inl (Unhandled x), s2)
                | Inr model \<Rightarrow> (Inr model, s2))))"

definition prompt ::
  "('s, 'm, 'f, 'h, 'r, 't, 'd) session_service \<Rightarrow> string \<Rightarrow> string \<Rightarrow> 's
     \<Rightarrow> (route_exn + 'r) \<times> 's" where
  "prompt svc sid user_prompt s =
     (case send_prompt svc sid user_prompt s of
        (Inl e, s') \<Rightarrow> (Inl (except_SessionException e), s')
      | (Inr result, s') \<Rightarrow> (Inr result, s'))"

definition get_all_prompt_templates ::
  "('s, 'm, 'f, 'h, 'r, 't, 'd) session_service \<Rightarrow> 's \<Rightarrow> (route_exn + 't list) \<times> 's" where
  "get_all_prompt_templates svc s =
     (case get_prompt_templates svc s of
        (Inl e, s') \<Rightarrow> (Inl (except_SessionException e), s')
      | (Inr templates, s') \<Rightarrow> (Inr templates, s'))"

text \<open>The two template routes answer with the dictionary \<open>{"success": result}\<close>.\<close>

definition set_prompt_template ::
  "('s, 'm, 'f, 'h, 'r, 't, 'd) session_service \<Rightarrow> string \<Rightarrow> string \<Rightarrow> 's
     \<Rightarrow> (route_exn + (string \<times> bool) list) \<times> 's" where
  "set_prompt_template svc sid prompt_template_name s =
     (case select_prompt_template svc sid prompt_template_name s of
        (Inl e, s') \<Rightarrow> (Inl (except_SessionException e), s')
      | (Inr result, s') \<Rightarrow> (Inr [(''success'', result)], s'))"

definition unset_prompt_template ::
  "('s, 'm, 'f, 'h, 'r, 't, 'd) session_service \<Rightarrow> string \<Rightarrow> string \<Rightarrow> 's
     \<Rightarrow> (route_exn + (string \<times> bool) list) \<times> 's" where
  "unset_prompt_template svc sid prompt_template_name s =
     (case select_prompt_template svc sid [] s of
        (Inl e, s') \<Rightarrow> (Inl (except_SessionException e), s')
      | (Inr result, s') \<Rightarrow> (Inr [(''success'', result)], s'))"

text \<open>The status a route answers a session error kind with.\<close>

definition http_status :: "string \<Rightarrow> nat" where
  "http_status error_code =
     (if error_code = ''FileNotFound'' then 404
      else if error_code = ''ValidationError'' then 400 else 500)"

text \<open>
  Concrete parameters for evaluation. An interpreter with the default limit on digits;
  a configuration class with two object types; an engine whose connect step yields no
  handle; a service over a counter state that knows the session \<open>s1\<close>, has no session
  \<open>s0\<close>, and raises by kind for the ids \<open>missing\<close> and \<open>broken\<close>; and a response schema
  that wants a session.
\<close>

definition demo_py :: interpreter where
  "demo_py = \<lparr> int_max_str_digits = 4300, encoder_depth = 900, decoder_depth = 900 \<rparr>"

definition demo_env :: environment_vars where
  "demo_env =
     \<lparr> class_name = ''EnvironmentVars'',
       roots = [''recipe'' \<mapsto> ''data/recipe'', ''cookbook'' \<mapsto> ''data/cookbook''],
       inherited = [''__doc__'' \<mapsto> ''None''] \<rparr>"

definition dead_engine :: "(nat, int, nat) db_engine" where
  "dead_engine =
     \<lparr> create_connection = (\<lambda>p db. (Inr None, Suc db)),
       close_connection = (\<lambda>h db. (Inr (), db)),
       create_table = (\<lambda>h q db. (Inr (), db)),
       create_record = (\<lambda>h d q db. (Inr (), db)),
       update_record = (\<lambda>h d q db. (Inr (), db)) \<rparr>"

datatype ('f, 'h) session_response_model = SessionResponseModel "('f, 'h) session_data"

definition demo_model ::
  "(nat, string list) session_data option \<Rightarrow> string + (nat, string list) session_response_model" where
  "demo_model d =
     (case d of
        Some x \<Rightarrow> Inr (SessionResponseModel x)
      | None \<Rightarrow> Inl ''session: none is not an allowed value'')"

definition demo_service ::
  "(nat, string, nat, string list, string, string, string) session_service" where
  "demo_service =
     \<lparr> get_sessions = (\<lambda>s. (Inr [''s1''], s)),
       get_session = (\<lambda>sid s.
          if sid = ''missing'' then (Inl (SessionException ''no such file'' ''FileNotFound''), s)
          else if sid = ''broken'' then (Inl (SessionException ''bad'' ''ValidationError''), s)
          else if sid = ''s1'' then
            (Inr (Some \<lparr> session_id = ''s1'', chat_history = [''old''], metadata = 7 \<rparr>), s)
          else (Inr None, s)),
       get_session_chat_history = (\<lambda>sid s. (Inr [''hello'', ''world''], s)),
       create_session = (\<lambda>dto s.
          if dto = [] then (Inl (SessionException ''no name'' ''ValidationError''), s)
          else (Inr \<lparr> session_id = dto, chat_history = [], metadata = 0 \<rparr>, Suc s)),
       send_prompt = (\<lambda>sid p s.
          if sid = ''s1'' then (Inr (''echo: '' @ p), Suc s)
          else (Inl (SessionException ''boom'' ''Unknown''), s)),
       get_prompt_templates = (\<lambda>s. (Inr [''t1''], s)),
       select_prompt_template = (\<lambda>sid name s. (Inr (name = []), Suc s)) \<rparr>"

text \<open>
  A store with the directories of two object types, with one cookbook file that is no
  JSON document and one that holds \<open>NaN\<close>; a document and its text; and the store after
  the document has been created as the recipe \<open>r1\<close>.
\<close>

definition demo_fs :: filesystem where
  "demo_fs =
     \<lparr> nodes = [([''data''], Dir 0), ([''data'', ''recipe''], Dir 0),
                ([''data'', ''cookbook''], Dir 0),
                ([''data'', ''cookbook'', ''bad.json''], File ''{oops'' 0),
                ([''data'', ''cookbook'', ''nan.json''], File ''NaN'' 0)],
       cwd = [], clock = 1, locked = [] \<rparr>"

definition demo_doc :: json where
  "demo_doc = JObj [(py_str ''name'', JStr (py_str ''test''))]"

definition demo_text :: string where
  "demo_text = ''{'' @ [CHR 0x0A] @ ''  '' @ [CHR 0x22] @ ''name'' @ [CHR 0x22] @ '': ''
                 @ [CHR 0x22] @ ''test'' @ [CHR 0x22] @ [CHR 0x0A] @ ''}''"

definition demo_fs1 :: filesystem where
  "demo_fs1 =
     \<lparr> nodes = [([''data''], Dir 0), ([''data'', ''recipe''], Dir 1),
                ([''data'', ''cookbook''], Dir 0),
                ([''data'', ''cookbook'', ''bad.json''], File ''{oops'' 0),
                ([''data'', ''cookbook'', ''nan.json''], File ''NaN'' 0),
                ([''data'', ''recipe'', ''r1.json''], File demo_text 1)],
       cwd = [], clock = 2, locked = [] \<rparr>"

text \<open>A name of 256 bytes, one more than a directory entry can have.\<close>

definition long_name :: string where
  "long_name = replicate 256 (CHR ''a'')"

section \<open>The progress webhook\<close>

text \<open>
  \<open>MoonshotUIWebhook.on_progress_update\<close>. \<open>BenchmarkTestState\<close> is a class of the
  repository that is not part of the sources at hand, and \<open>requests.post\<close> depends on the
  network: the state's \<open>update_progress_status\<close> and the post are taken as parameters. A
  post returns a response or raises; what is raised is of the class
  \<open>requests.RequestException\<close> (a connection error, a timeout, an HTTP error) or of
  another class, and carries its text. A response has its status, its reason and URL,
  and what its \<open>json()\<close> returns or raises. The snapshot is a JSON value; its text for the
  log is made before anything else, and what \<open>json.dumps\<close> raises then is \<open>Builtin\<close>. The
  calls on the logger are recorded in order. The process state holds the store as well,
  which this component has no call for.
\<close>

datatype raised = RequestException string | Builtin exn | OtherError string

record response =
  status_code :: nat
  reason :: string
  response_url :: string
  json_result :: "raised + json"

datatype log_level = DEBUG | INFO | CRITICAL

datatype log_msg = Text string | Object json

record ('st, 'net) process =
  benchmark_test_state :: 'st
  logged :: "(log_level \<times> log_msg) list"
  network :: 'net
  storage :: filesystem

definition log :: "log_level \<Rightarrow> log_msg \<Rightarrow> ('st, 'net) process \<Rightarrow> ('st, 'net) process" where
  "log lv m w = w\<lparr>logged := logged w @ [(lv, m)]\<rparr>"

text \<open>\<open>response.raise_for_status()\<close>: an \<open>HTTPError\<close> for a status from 400 to 599.\<close>

definition raise_for_status :: "response \<Rightarrow> raised option" where
  "raise_for_status r =
     (if 400 \<le> status_code r \<and> status_code r < 500
      then Some (RequestException (digits (status_code r) @ '' Client Error: '' @ reason r
                                   @ '' for url: '' @ response_url r))
      else if 500 \<le> status_code r \<and> status_code r < 600
      then Some (RequestException (digits (status_code r) @ '' Server Error: '' @ reason r
                                   @ '' for url: '' @ response_url r))
      else None)"

text \<open>The \<open>except requests.RequestException as e\<close> block; another exception is not caught.\<close>

definition except_RequestException ::
  "raised \<Rightarrow> ('st, 'net) process \<Rightarrow> (raised + unit) \<times> ('st, 'net) process" where
  "except_RequestException e w =
     (case e of
        RequestException s \<Rightarrow>
          (Inr (), log CRITICAL (Text (''Failed to send progress data: '' @ s)) w)
      | _ \<Rightarrow> (Inl e, w))"

definition on_progress_update ::
  "interpreter \<Rightarrow> (string \<Rightarrow> json \<Rightarrow> 'net \<Rightarrow> (raised + response) \<times> 'net) \<Rightarrow> (json \<Rightarrow> 'st \<Rightarrow> 'st)
     \<Rightarrow> string \<Rightarrow> json \<Rightarrow> ('st, 'net) process \<Rightarrow> (raised + unit) \<times> ('st, 'net) process" where
  "on_progress_update py post update_progress_status url progress_data w =
     (case json_dumps py progress_data of
        Inl e \<Rightarrow> (Inl (Builtin e), w)
      | Inr rendered \<Rightarrow>
          (let w1 = log DEBUG (Text rendered) w;
               w2 = w1\<lparr>benchmark_test_state :=
                         update_progress_status progress_data (benchmark_test_state w1)\<rparr>
           in
             (case post url progress_data (network w2) of
                (Inl e, n) \<Rightarrow> except_RequestException e (w2\<lparr>network := n\<rparr>)
              | (Inr r, n) \<Rightarrow>
                  (case raise_for_status r of
                     Some e \<Rightarrow> except_RequestException e (w2\<lparr>network := n\<rparr>)
                   | None \<Rightarrow>
                       (case json_result r of
                          Inl e \<Rightarrow> except_RequestException e (w2\<lparr>network := n\<rparr>)
                        | Inr v \<Rightarrow>
                            (Inr (),
                             log INFO (Text ''Progress data successfully sent to the server.'')
                               (log DEBUG (Object v) (w2\<lparr>network := n\<rparr>))))))))"

text \<open>
  Concrete parameters for evaluation: a network that is down, one that answers 200 with
  an empty JSON object, and a progress state that keeps the last snapshot.
\<close>

definition post_down :: "string \<Rightarrow> json \<Rightarrow> nat \<Rightarrow> (raised + response) \<times> nat" where
  "post_down url body n = (Inl (RequestException ''Connection refused''), Suc n)"

definition post_ok :: "string \<Rightarrow> json \<Rightarrow> nat \<Rightarrow> (raised + response) \<times> nat" where
  "post_ok url body n =
     (Inr \<lparr> status_code = 200, reason = ''OK'', response_url = url, json_result = Inr (JObj []) \<rparr>,
      Suc n)"

definition keep_last :: "json \<Rightarrow> json list \<Rightarrow> json list" where
  "keep_last progress_data st = [progress_data]"

definition demo_process :: "(json list, nat) process" where
  "demo_process = \<lparr> benchmark_test_state = [], logged = [], network = 0, storage = demo_fs \<rparr>"

section \<open>Theorems\<close>





text \<open>
  C7. On an uninitialised accessor reference each of close, createTable, createRecord and
  updateRecord fails with the initialisation error and leaves the engine untouched: the
  engine's method is not called, and the result is never a normal return. Opening fails
  with the initialisation error when the connect step returns no handle, and whatever
  opening returns normally is a handle the connect step produced.
\<close>

theorem uninitialised_accessor_fails:
  "close_database_connection eng None db
     = (Inl (RuntimeError ''Database instance is not initialised.''), db)
   \<and> create_database_table eng None ddl db
     = (Inl (RuntimeError ''Database instance is not initialised.''), db)
   \<and> create_database_record eng None vals sql db
     = (Inl (RuntimeError ''Database instance is not initialised.''), db)
   \<and> update_database_record eng None vals sql db
     = (Inl (RuntimeError ''Database instance is not initialised.''), db)
   \<and> is_InitializationError (RuntimeError ''Database instance is not initialised.'')
   \<and> is_InitializationError (RuntimeError ''db instance is not initialised.'')
   \<and> (get_filepath env t i e = Inr p \<and> create_connection eng (str_Path p) db = (Inr None, db')
        \<longrightarrow> create_database_connection eng env t i e db
              = (Inl (RuntimeError ''db instance is not initialised.''), db'))
   \<and> (create_database_connection eng env t i e db = (Inr h, db')
        \<longrightarrow> (\<exists>p. get_filepath env t i e = Inr p
                 \<and> create_connection eng (str_Path p) db = (Inr (Some h), db')))"
  by (auto simp: close_database_connection_def create_database_table_def
        create_database_record_def update_database_record_def is_InitializationError_def
        create_database_connection_def split: sum.splits option.splits prod.splits)

theorem uninitialised_accessor_fails_witness:
  "get_filepath demo_env ''recipe'' ''r1'' ''db'' = Inr ''data/recipe/r1.db''
   \<and> create_connection dead_engine (str_Path ''data/recipe/r1.db'') 0 = (Inr None, 1)
   \<and> create_database_connection dead_engine demo_env ''recipe'' ''r1'' ''db'' 0
       = (Inl (RuntimeError ''db instance is not initialised.''), 1)
   \<and> close_database_connection dead_engine None 0
       = (Inl (RuntimeError ''Database instance is not initialised.''), 0)"
proof -
  have p: "get_filepath demo_env ''recipe'' ''r1'' ''db'' = Inr ''data/recipe/r1.db''"
    by (simp add: get_filepath_def getattr_def demo_env_def)
  have c: "create_connection dead_engine (str_Path ''data/recipe/r1.db'') 0 = (Inr None, 1)"
    by (simp add: dead_engine_def)
  from uninitialised_accessor_fails [where eng = dead_engine and db = 0 and env = demo_env
      and t = "''recipe''" and i = "''r1''" and e = "''db''" and p = "''data/recipe/r1.db''"
      and db' = 1] p c
  show ?thesis by simp
qed

text \<open>
  C10. The DELETE prompt-template route does not read the template name of its URL: it
  calls the service's template selection with the empty string, so its outcome is the
  same for every name, and it is the outcome of the PUT route given the empty name.
\<close>

theorem unset_prompt_template_ignores_name:
  "unset_prompt_template svc sid name s = unset_prompt_template svc sid name' s
   \<and> unset_prompt_template svc sid name s = set_prompt_template svc sid [] s
   \<and> snd (unset_prompt_template svc sid name s) = snd (select_prompt_template svc sid [] s)"
  by (simp add: unset_prompt_template_def set_prompt_template_def split: prod.split sum.split)


text \<open>
  C8, as amended. When a service call made by a route raises a \<open>SessionException\<close>, the
  route answers with status 404 for the kind \<open>FileNotFound\<close>, 400 for \<open>ValidationError\<close>
  and 500 for any other kind, the exception's message as detail; this holds for every
  call of every route, the second call of \<open>get_session_by_session_id\<close> and of \<open>create\<close>
  included. When nothing is raised, \<open>get_all_sessions\<close>, \<open>prompt\<close> and
  \<open>get_all_prompt_templates\<close> return the service's payload as it is; the two template
  routes return it as the dictionary \<open>{"success": result}\<close>; \<open>get_session_by_session_id\<close>
  returns the session inside a \<open>SessionResponseModel\<close>, its chat history replaced by the
  separately fetched history when \<open>include_history\<close> is set, and answers a null session
  with 404 \<open>Session not found\<close>, with or without the history; \<open>create\<close> returns, inside a
  \<open>SessionResponseModel\<close>, what \<open>get_session\<close> returns for the id of the new session.
\<close>

theorem routes_translate_session_errors:
  "http_status ''FileNotFound'' = 404 \<and> http_status ''ValidationError'' = 400
   \<and> (code \<noteq> ''FileNotFound'' \<and> code \<noteq> ''ValidationError'' \<longrightarrow> http_status code = 500)
   \<and> (get_sessions svc s = (Inl (SessionException msg code), s')
        \<longrightarrow> get_all_sessions svc s = (Inl (HTTPException (http_status code) msg), s'))
   \<and> (get_sessions svc s = (Inr sessions, s') \<longrightarrow> get_all_sessions svc s = (Inr sessions, s'))
   \<and> (get_session svc sid s = (Inl (SessionException msg code), s')
        \<longrightarrow> get_session_by_session_id svc response_model sid ih s
              = (Inl (HTTPException (http_status code) msg), s'))
   \<and> (get_session svc sid s = (Inr found, sm)
        \<and> get_session_chat_history svc sid sm = (Inl (SessionException msg code), s')
        \<longrightarrow> get_session_by_session_id svc response_model sid True s
              = (Inl (HTTPException (http_status code) msg), s'))
   \<and> (get_session svc sid s = (Inr (Some d), s') \<and> response_model (Some d) = Inr model
        \<longrightarrow> get_session_by_session_id svc response_model sid False s = (Inr model, s'))
   \<and> (get_session svc sid s = (Inr (Some d), sm)
        \<and> get_session_chat_history svc sid sm = (Inr history, s')
        \<and> response_model (Some (d\<lparr>chat_history := history\<rparr>)) = Inr model
        \<longrightarrow> get_session_by_session_id svc response_model sid True s = (Inr model, s'))
   \<and> (get_session svc sid s = (Inr None, s')
        \<longrightarrow> get_session_by_session_id svc response_model sid False s
              = (Inl (HTTPException 404 ''Session not found''), s'))
   \<and> (get_session svc sid s = (Inr None, sm)
        \<and> get_session_chat_history svc sid sm = (Inr history, s')
        \<longrightarrow> get_session_by_session_id svc response_model sid True s
              = (Inl (HTTPException 404 ''Session not found''), s'))
   \<and> (create_session svc session_dto s = (Inl (SessionException msg code), s')
        \<longrightarrow> create svc response_model session_dto s
              = (Inl (HTTPException (http_status code) msg), s'))
   \<and> (create_session svc session_dto s = (Inr new_session, sm)
        \<and> get_session svc (session_id new_session) sm = (Inl (SessionException msg code), s')
        \<longrightarrow> create svc response_model session_dto s
              = (Inl (HTTPException (http_status code) msg), s'))
   \<and> (create_session svc session_dto s = (Inr new_session, sm)
        \<and> get_session svc (session_id new_session) sm = (Inr updated, s')
        \<and> response_model updated = Inr model
        \<longrightarrow> create svc response_model session_dto s = (Inr model, s'))
   \<and> (send_prompt svc sid user_prompt s = (Inl (SessionException msg code), s')
        \<longrightarrow> prompt svc sid user_prompt s = (Inl (HTTPException (http_status code) msg), s'))
   \<and> (send_prompt svc sid user_prompt s = (Inr result, s')
        \<longrightarrow> prompt svc sid user_prompt s = (Inr result, s'))
   \<and> (get_prompt_templates svc s = (Inl (SessionException msg code), s')
        \<longrightarrow> get_all_prompt_templates svc s = (Inl (HTTPException (http_status code) msg), s'))
   \<and> (get_prompt_templates svc s = (Inr templates, s')
        \<longrightarrow> get_all_prompt_templates svc s = (Inr templates, s'))
   \<and> (select_prompt_template svc sid name s = (Inl (SessionException msg code), s')
        \<longrightarrow> set_prompt_template svc sid name s
              = (Inl (HTTPException (http_status code) msg), s'))
   \<and> (select_prompt_template svc sid name s = (Inr success, s')
        \<longrightarrow> set_prompt_template svc sid name s = (Inr [(''success'', success)], s'))
   \<and> (select_prompt_template svc sid [] s = (Inl (SessionException msg code), s')
        \<longrightarrow> unset_prompt_template svc sid name s
              = (Inl (HTTPException (http_status code) msg), s'))
   \<and> (select_prompt_template svc sid [] s = (Inr success, s')
        \<longrightarrow> unset_prompt_template svc sid name s = (Inr [(''success'', success)], s'))"
  by (simp add: http_status_def except_SessionException_def get_all_sessions_def
        get_session_by_session_id_def create_def prompt_def get_all_prompt_templates_def
        set_prompt_template_def unset_prompt_template_def)

theorem routes_translate_session_errors_witness:
  "get_session_by_session_id demo_service demo_model ''missing'' False 0
     = (Inl (HTTPException 404 ''no such file''), 0)
   \<and> get_session_by_session_id demo_service demo_model ''broken'' True 0
     = (Inl (HTTPException 400 ''bad''), 0)
   \<and> prompt demo_service ''s0'' ''hi'' 0 = (Inl (HTTPException 500 ''boom''), 0)
   \<and> prompt demo_service ''s1'' ''hi'' 0 = (Inr ''echo: hi'', 1)
   \<and> get_all_sessions demo_service 0 = (Inr [''s1''], 0)
   \<and> get_session_by_session_id demo_service demo_model ''s1'' False 0
     = (Inr (SessionResponseModel
          \<lparr> session_id = ''s1'', chat_history = [''old''], metadata = 7 \<rparr>), 0)
   \<and> get_session_by_session_id demo_service demo_model ''s0'' True 0
     = (Inl (HTTPException 404 ''Session not found''), 0)
   \<and> create demo_service demo_model [] 0 = (Inl (HTTPException 400 ''no name''), 0)
   \<and> create demo_service demo_model ''s1'' 0
     = (Inr (SessionResponseModel
          \<lparr> session_id = ''s1'', chat_history = [''old''], metadata = 7 \<rparr>), 1)
   \<and> create demo_service demo_model ''missing'' 0
     = (Inl (HTTPException 404 ''no such file''), 1)"
proof -
  let ?d = "\<lparr> session_id = ''s1'', chat_history = [''old''], metadata = 7 \<rparr>
              :: (nat, string list) session_data"
  have a: "get_session demo_service ''missing'' 0
             = (Inl (SessionException ''no such file'' ''FileNotFound''), 0)"
    and b: "get_session demo_service ''broken'' 0
             = (Inl (SessionException ''bad'' ''ValidationError''), 0)"
    and c: "send_prompt demo_service ''s0'' ''hi'' 0 = (Inl (SessionException ''boom'' ''Unknown''), 0)"
    and c': "send_prompt demo_service ''s1'' ''hi'' 0 = (Inr ''echo: hi'', 1)"
    and d: "get_sessions demo_service 0 = (Inr [''s1''], 0)"
    and e: "get_session demo_service ''s1'' 0 = (Inr (Some ?d), 0)
            \<and> demo_model (Some ?d) = Inr (SessionResponseModel ?d)"
    and f: "get_session demo_service ''s0'' 0 = (Inr None, 0)
            \<and> get_session_chat_history demo_service ''s0'' 0 = (Inr [''hello'', ''world''], 0)"
    and g: "create_session demo_service [] 0 = (Inl (SessionException ''no name'' ''ValidationError''), 0)"
    and h: "create_session demo_service ''s1'' 0
              = (Inr \<lparr> session_id = ''s1'', chat_history = [], metadata = 0 \<rparr>, 1)
            \<and> get_session demo_service
                  (session_id \<lparr> session_id = ''s1'', chat_history = [] :: string list, metadata = 0 :: nat \<rparr>) 1
                = (Inr (Some ?d), 1)
            \<and> demo_model (Some ?d) = Inr (SessionResponseModel ?d)"
    and i: "create_session demo_service ''missing'' 0
              = (Inr \<lparr> session_id = ''missing'', chat_history = [], metadata = 0 \<rparr>, 1)
            \<and> get_session demo_service
                  (session_id \<lparr> session_id = ''missing'', chat_history = [] :: string list, metadata = 0 :: nat \<rparr>) 1
                = (Inl (SessionException ''no such file'' ''FileNotFound''), 1)"
    by (simp_all add: demo_service_def demo_model_def)
  note t = routes_translate_session_errors [where svc = demo_service and response_model = demo_model
      and s = 0]
  have k: "http_status ''FileNotFound'' = 404" "http_status ''ValidationError'' = 400"
    "http_status ''Unknown'' = 500"
    using t [where code = "''Unknown''"] by simp_all
  have 1: "get_session_by_session_id demo_service demo_model ''missing'' False 0
     = (Inl (HTTPException 404 ''no such file''), 0)"
    using t [where sid = "''missing''" and msg = "''no such file''" and code = "''FileNotFound''"
             and ih = False and s' = 0] a k by simp
  have 2: "get_session_by_session_id demo_service demo_model ''broken'' True 0
     = (Inl (HTTPException 400 ''bad''), 0)"
    using t [where sid = "''broken''" and msg = "''bad''" and code = "''ValidationError''"
             and ih = True and s' = 0] b k by simp
  have 3: "prompt demo_service ''s0'' ''hi'' 0 = (Inl (HTTPException 500 ''boom''), 0)"
    using t [where sid = "''s0''" and msg = "''boom''" and code = "''Unknown''"
             and user_prompt = "''hi''" and s' = 0] c k by simp
  have 4: "prompt demo_service ''s1'' ''hi'' 0 = (Inr ''echo: hi'', 1)"
    using t [where sid = "''s1''" and user_prompt = "''hi''" and result = "''echo: hi''" and s' = 1]
      c' by simp
  have 5: "get_all_sessions demo_service 0 = (Inr [''s1''], 0)"
    using t [where sessions = "[''s1'']" and s' = 0] d by simp
  have 6: "get_session_by_session_id demo_service demo_model ''s1'' False 0
     = (Inr (SessionResponseModel ?d), 0)"
    using t [where sid = "''s1''" and d = ?d and model = "SessionResponseModel ?d" and s' = 0] e
    by simp
  have 7: "get_session_by_session_id demo_service demo_model ''s0'' True 0
     = (Inl (HTTPException 404 ''Session not found''), 0)"
    using t [where sid = "''s0''" and sm = 0 and history = "[''hello'', ''world'']" and s' = 0] f
    by simp
  have 8: "create demo_service demo_model [] 0 = (Inl (HTTPException 400 ''no name''), 0)"
    using t [where session_dto = "[]" and msg = "''no name''" and code = "''ValidationError''"
             and s' = 0] g k by simp
  have 9: "create demo_service demo_model ''s1'' 0 = (Inr (SessionResponseModel ?d), 1)"
    using t [where session_dto = "''s1''"
             and new_session = "\<lparr> session_id = ''s1'', chat_history = [], metadata = 0 \<rparr>"
             and sm = 1 and updated = "Some ?d" and model = "SessionResponseModel ?d" and s' = 1] h
    by simp
  have 10: "create demo_service demo_model ''missing'' 0
     = (Inl (HTTPException 404 ''no such file''), 1)"
    using t [where session_dto = "''missing''"
             and new_session = "\<lparr> session_id = ''missing'', chat_history = [], metadata = 0 \<rparr>"
             and sm = 1 and msg = "''no such file''" and code = "''FileNotFound''" and s' = 1] i k
    by simp
  from 1 2 3 4 5 6 7 8 9 10 show ?thesis by simp
qed

text \<open>
  C8 as stated does not hold for every route: the service raises nothing and returns no
  session, and \<open>get_session_by_session_id\<close> raises a 404 of its own instead of passing the
  payload on; with \<open>include_history\<close> the session's chat history is not the one that
  \<open>get_session\<close> returned; and the template routes do not return the service's result
  but a dictionary that holds it.
\<close>

theorem routes_payload_counterexample:
  "get_session demo_service ''s0'' 0 = (Inr None, 0)
   \<and> get_session_by_session_id demo_service demo_model ''s0'' False 0
       = (Inl (HTTPException 404 ''Session not found''), 0)
   \<and> get_session demo_service ''s1'' 0
       = (Inr (Some \<lparr> session_id = ''s1'', chat_history = [''old''], metadata = 7 \<rparr>), 0)
   \<and> get_session_by_session_id demo_service demo_model ''s1'' True 0
       = (Inr (SessionResponseModel
            \<lparr> session_id = ''s1'', chat_history = [''hello'', ''world''], metadata = 7 \<rparr>), 0)
   \<and> select_prompt_template demo_service ''s1'' ''t1'' 0 = (Inr False, 1)
   \<and> set_prompt_template demo_service ''s1'' ''t1'' 0 = (Inr [(''success'', False)], 1)"
  by (simp add: get_session_by_session_id_def set_prompt_template_def demo_service_def
        demo_model_def)


subsection \<open>Paths and the state of the filesystem\<close>

text \<open>
  What \<open>pathlib\<close> drops from a path does not change where the path leads, unless the path
  ends in a slash or in a \<open>.\<close> segment, and it makes the path no longer; writing and
  unlinking a file leave every directory a directory, open or locked as it was, so a
  name that was resolved still resolves to the same place.
\<close>


lemma split_slash_nonempty: "split_slash s \<noteq> []"
  by (induction s) (auto split: list.splits)

lemma split_slash_append:
  "split_slash (a @ CHR ''/'' # b) = split_slash a @ split_slash b"
proof (induction a)
  case Nil
  show ?case by simp
next
  case (Cons c a)
  show ?case
  proof (cases "c = CHR ''/''")
    case True
    with Cons show ?thesis by simp
  next
    case False
    obtain w ws where ws: "split_slash a = w # ws"
      using split_slash_nonempty [of a] by (cases "split_slash a") auto
    with False Cons show ?thesis by simp
  qed
qed

lemma split_slash_plain: "CHR ''/'' \<notin> set x \<Longrightarrow> split_slash x = [x]"
  by (induction x) auto

lemma split_slash_pieces: "x \<in> set (split_slash s) \<Longrightarrow> CHR ''/'' \<notin> set x"
proof (induction s arbitrary: x)
  case Nil
  then show ?case by simp
next
  case (Cons c s)
  obtain w ws where ws: "split_slash s = w # ws"
    using split_slash_nonempty [of s] by (cases "split_slash s") auto
  with Cons show ?case by (auto split: if_splits)
qed

lemma split_join_slash:
  "xs \<noteq> [] \<Longrightarrow> \<forall>x\<in>set xs. CHR ''/'' \<notin> set x \<Longrightarrow> split_slash (join_slash xs) = xs"
proof (induction xs rule: join_slash.induct)
  case 1
  then show ?case by simp
next
  case (2 x)
  then show ?case by (simp add: split_slash_plain)
next
  case (3 x y ys)
  then show ?case by (simp add: split_slash_append split_slash_plain)
qed


lemma walk_in_Nil: "walk_in fs cur [] = (if searchable fs cur then Inr cur else Inl EACCES)"
  by (simp add: walk_in_def)

lemma walk_in_Cons:
  "walk_in fs cur (c # cs) =
     (if \<not> searchable fs cur then Inl EACCES
      else if name_max < length c then Inl ENAMETOOLONG
      else
        (case lookup fs (step cur c) of
           Some (Dir t) \<Rightarrow> walk_in fs (step cur c) cs
         | Some (File b t) \<Rightarrow> Inl ENOTDIR
         | None \<Rightarrow> Inl ENOENT))"
  by (simp add: walk_in_def split: option.split node.split)

lemma walk_in_locked: "\<not> searchable fs cur \<Longrightarrow> walk_in fs cur cs = Inl EACCES"
  by (cases cs) (simp_all add: walk_in_Nil walk_in_Cons)

lemma walk_in_skip_dots:
  "is_dir fs cur \<Longrightarrow> walk_in fs cur (filter (\<lambda>x. x \<noteq> ''.'') cs) = walk_in fs cur cs"
proof (induction cs arbitrary: cur)
  case Nil
  show ?case by simp
next
  case (Cons c cs)
  show ?case
  proof (cases "searchable fs cur")
    case False
    then show ?thesis by (simp add: walk_in_locked)
  next
    case True
    show ?thesis
    proof (cases "c = ''.''")
      case dot: True
      from Cons.prems obtain t where "lookup fs cur = Some (Dir t)"
        by (auto simp: is_dir_def split: option.splits node.splits)
      with dot True Cons show ?thesis by (simp add: walk_in_Cons step_def name_max_def)
    next
      case nodot: False
      show ?thesis
      proof (cases "lookup fs (step cur c)")
        case None
        with nodot True show ?thesis by (simp add: walk_in_Cons)
      next
        case (Some nd)
        show ?thesis
        proof (cases nd)
          case (Dir t)
          with Some have "is_dir fs (step cur c)" by (simp add: is_dir_def)
          then have "walk_in fs (step cur c) (filter (\<lambda>x. x \<noteq> ''.'') cs) = walk_in fs (step cur c) cs"
            by (rule Cons.IH)
          with nodot True Some Dir show ?thesis by (simp add: walk_in_Cons)
        next
          case (File b t)
          with nodot True Some show ?thesis by (simp add: walk_in_Cons)
        qed
      qed
    qed
  qed
qed


lemma last_filter: "xs \<noteq> [] \<Longrightarrow> P (last xs) \<Longrightarrow> last (filter P xs) = last xs"
  by (cases xs rule: rev_cases) auto

lemma filter_nonempty_last: "xs \<noteq> [] \<Longrightarrow> P (last xs) \<Longrightarrow> filter P xs \<noteq> []"
  by (cases xs rule: rev_cases) auto

lemma butlast_filter:
  "xs \<noteq> [] \<Longrightarrow> P (last xs) \<Longrightarrow> butlast (filter P xs) = filter P (butlast xs)"
  by (cases xs rule: rev_cases) auto

lemma components_slash: "components (CHR ''/'' # s) = components s"
  by (simp add: components_def)

lemma path_parts_components: "path_parts p = filter (\<lambda>x. x \<noteq> ''.'') (components p)"
  by (simp add: path_parts_def components_def conj_commute)

lemma path_parts_plain: "x \<in> set (path_parts p) \<Longrightarrow> x \<noteq> [] \<and> CHR ''/'' \<notin> set x"
  by (auto simp: path_parts_def dest: split_slash_pieces)

lemma components_join:
  "xs \<noteq> [] \<Longrightarrow> \<forall>x\<in>set xs. x \<noteq> [] \<and> CHR ''/'' \<notin> set x \<Longrightarrow> components (join_slash xs) = xs"
  by (simp add: components_def split_join_slash filter_id_conv)

lemma components_str_Path:
  assumes "path_parts p \<noteq> []"
  shows "components (str_Path p) = path_parts p"
proof -
  have j: "components (join_slash (path_parts p)) = path_parts p"
    using assms path_parts_plain by (intro components_join) auto
  show ?thesis
    using assms j by (simp add: str_Path_def path_anchor_def components_slash)
qed

lemma join_slash_hd:
  "xs \<noteq> [] \<Longrightarrow> \<forall>x\<in>set xs. x \<noteq> [] \<and> CHR ''/'' \<notin> set x
   \<Longrightarrow> join_slash xs \<noteq> [] \<and> hd (join_slash xs) \<noteq> CHR ''/'' \<and> last (join_slash xs) \<noteq> CHR ''/''"
proof (induction xs rule: join_slash.induct)
  case 1
  then show ?case by simp
next
  case (2 x)
  then show ?case by (cases x) (auto dest: last_in_set)
next
  case (3 x y ys)
  then show ?case by (cases x) auto
qed

lemma str_Path_shape:
  assumes "path_parts p \<noteq> []"
  shows "str_Path p \<noteq> []" and "last (str_Path p) \<noteq> CHR ''/''"
    and "(take 1 (str_Path p) = ''/'') = (take 1 p = ''/'')"
proof -
  have j: "join_slash (path_parts p) \<noteq> [] \<and> hd (join_slash (path_parts p)) \<noteq> CHR ''/''
           \<and> last (join_slash (path_parts p)) \<noteq> CHR ''/''"
    using assms path_parts_plain by (intro join_slash_hd) auto
  show "str_Path p \<noteq> []" using assms j by (simp add: str_Path_def)
  show "last (str_Path p) \<noteq> CHR ''/''" using assms j by (simp add: str_Path_def)
  show "(take 1 (str_Path p) = ''/'') = (take 1 p = ''/'')"
  proof (cases "take 1 p = ''/''")
    case True
    then show ?thesis using assms by (auto simp: str_Path_def path_anchor_def)
  next
    case False
    then have "path_anchor p = []"
      by (cases p) (auto simp: path_anchor_def)
    with False assms j show ?thesis
      by (cases "join_slash (path_parts p)") (auto simp: str_Path_def)
  qed
qed

lemma last_split_slash_trailing:
  "p \<noteq> [] \<Longrightarrow> last p = CHR ''/'' \<Longrightarrow> last (split_slash p) = []"
proof -
  assume "p \<noteq> []" "last p = CHR ''/''"
  then have "p = butlast p @ CHR ''/'' # []"
    by (metis append_butlast_last_id)
  then have "split_slash p = split_slash (butlast p) @ split_slash []"
    using split_slash_append [of "butlast p" "[]"] by simp
  then show ?thesis by simp
qed


lemma join_slash_length:
  "xs \<noteq> [] \<Longrightarrow> Suc (length (join_slash xs)) = sum_list (map (\<lambda>x. Suc (length x)) xs)"
  by (induction xs rule: join_slash.induct) simp_all

lemma split_slash_length: "sum_list (map (\<lambda>x. Suc (length x)) (split_slash s)) = Suc (length s)"
proof (induction s)
  case Nil
  show ?case by simp
next
  case (Cons c s)
  obtain w ws where "split_slash s = w # ws"
    using split_slash_nonempty [of s] by (cases "split_slash s") auto
  with Cons show ?case by simp
qed

lemma sum_list_filter_le: "sum_list (map f (filter P xs)) \<le> sum_list (map (f :: 'a \<Rightarrow> nat) xs)"
  by (induction xs) simp_all

lemma path_parts_length: "path_parts s \<noteq> [] \<Longrightarrow> length (join_slash (path_parts s)) \<le> length s"
  using join_slash_length [of "path_parts s"] split_slash_length [of s]
    sum_list_filter_le [of "\<lambda>x. Suc (length x)" "\<lambda>x. x \<noteq> [] \<and> x \<noteq> ''.''" "split_slash s"]
  by (simp add: path_parts_def)

lemma path_parts_slash: "path_parts (CHR ''/'' # s) = path_parts s"
  by (simp add: path_parts_def)

lemma str_Path_length:
  assumes "path_parts p \<noteq> []"
  shows "length (str_Path p) \<le> length p"
proof (cases p)
  case Nil
  with assms show ?thesis by (simp add: path_parts_def)
next
  case (Cons c q)
  show ?thesis
  proof (cases "c = CHR ''/''")
    case False
    with Cons have "path_anchor p = []" by (simp add: path_anchor_def)
    with assms path_parts_length [of p] show ?thesis by (simp add: str_Path_def)
  next
    case True
    with Cons assms have q: "path_parts q \<noteq> []" "path_parts p = path_parts q"
      by (simp_all add: path_parts_slash)
    show ?thesis
    proof (cases "path_anchor p = ''//''")
      case False
      with True Cons have "path_anchor p = ''/''" by (simp add: path_anchor_def split: if_splits)
      with q path_parts_length [of q] Cons assms show ?thesis by (simp add: str_Path_def)
    next
      case two: True
      with True Cons obtain r where r: "q = CHR ''/'' # r"
        by (cases q) (auto simp: path_anchor_def split: if_splits)
      with q have "path_parts r \<noteq> []" "path_parts p = path_parts r"
        by (simp_all add: path_parts_slash)
      with two path_parts_length [of r] Cons r assms show ?thesis by (simp add: str_Path_def)
    qed
  qed
qed

lemma namei_str_Path:
  assumes a: "last (split_slash p) \<noteq> []" and b: "last (split_slash p) \<noteq> ''.''"
    and l: "length p < path_max"
  shows "namei fs (str_Path p) = namei fs p"
proof -
  let ?P = "\<lambda>x::string. x \<noteq> ''.''"
  let ?s = "if take 1 p = ''/'' then [] else cwd fs"
  have ne: "split_slash p \<noteq> []" by (rule split_slash_nonempty)
  have p: "p \<noteq> []" using a by auto
  have nt: "last p \<noteq> CHR ''/''" using a p last_split_slash_trailing by blast
  have cl: "components p \<noteq> []" "last (components p) = last (split_slash p)"
    using ne a by (simp_all add: components_def filter_nonempty_last last_filter)
  have pp: "path_parts p \<noteq> []" "last (path_parts p) = last (components p)"
    "butlast (path_parts p) = filter ?P (butlast (components p))"
    using cl b by (simp_all add: path_parts_components filter_nonempty_last last_filter butlast_filter)
  note sh = str_Path_shape [OF pp(1)]
  have c: "components (str_Path p) = path_parts p" using pp(1) by (rule components_str_Path)
  have l': "length (str_Path p) < path_max" using str_Path_length [OF pp(1)] l by simp
  have lp: "lookup_parent fs (str_Path p) = lookup_parent fs p"
  proof (cases "is_dir fs ?s")
    case False
    then show ?thesis using sh p l l' by (simp add: lookup_parent_def Let_def)
  next
    case True
    have w: "walk_in fs ?s (butlast (path_parts p)) = walk_in fs ?s (butlast (components p))"
      unfolding pp(3) using True by (rule walk_in_skip_dots)
    show ?thesis
      using sh p c pp(1) cl(1) l l' w by (simp add: lookup_parent_def Let_def)
  qed
  show ?thesis
    using lp c pp(2) sh(2) nt by (simp add: namei_def Let_def split: sum.split option.split)
qed

lemma os_stat_str_Path:
  "last (split_slash p) \<noteq> [] \<Longrightarrow> last (split_slash p) \<noteq> ''.'' \<Longrightarrow> length p < path_max
   \<Longrightarrow> os_stat fs (str_Path p) = os_stat fs p"
  by (simp add: os_stat_def namei_str_Path)


lemma map_of_dict_set: "map_of (dict_set k v ps) = (map_of ps)(k \<mapsto> v)"
  by (induction ps) (auto simp: fun_eq_iff)

lemma map_of_touch:
  "map_of (touch loc t ns) l
   = (case map_of ns l of Some (Dir t0) \<Rightarrow> Some (Dir (if l = loc then t else t0)) | r \<Rightarrow> r)"
  by (auto simp: touch_def map_of_dict_set split: option.splits node.splits)

lemma map_of_remove: "map_of (filter (\<lambda>kv. fst kv \<noteq> loc) ns) = (map_of ns)(loc := None)"
  by (induction ns) (auto simp: fun_eq_iff)


lemma walk_mono:
  "\<forall>l. is_dir fs l \<longrightarrow> is_dir fs' l \<Longrightarrow> locked fs' = locked fs \<Longrightarrow> walk fs cur cs = Inr d
   \<Longrightarrow> walk fs' cur cs = Inr d"
proof (induction cs arbitrary: cur)
  case Nil
  then show ?case by simp
next
  case (Cons c cs)
  from Cons.prems(3) have s: "searchable fs cur" "\<not> name_max < length c"
    by (auto split: if_splits)
  with Cons.prems(3) obtain t where t: "lookup fs (step cur c) = Some (Dir t)"
    by (auto split: option.splits node.splits)
  then have "is_dir fs (step cur c)" by (simp add: is_dir_def)
  with Cons.prems(1) have "is_dir fs' (step cur c)" by blast
  then obtain t' where t': "lookup fs' (step cur c) = Some (Dir t')"
    by (auto simp: is_dir_def split: option.splits node.splits)
  from Cons.prems(3) s t have "walk fs (step cur c) cs = Inr d" by simp
  with Cons.IH Cons.prems(1,2) have "walk fs' (step cur c) cs = Inr d" by blast
  with t' s Cons.prems(2) show ?case by (simp add: searchable_def)
qed

lemma lookup_parent_mono:
  assumes "\<forall>l. is_dir fs l \<longrightarrow> is_dir fs' l" and "cwd fs' = cwd fs" and "locked fs' = locked fs"
    and "lookup_parent fs p = Inr r"
  shows "lookup_parent fs' p = Inr r"
proof -
  define s where "s = (if take 1 p = ''/'' then [] else cwd fs)"
  have lp: "lookup_parent f p =
      (if p = [] then Inl ENOENT
       else if path_max \<le> length p then Inl ENAMETOOLONG
       else if \<not> is_dir f s then Inl ENOENT
       else if components p = [] then Inr None
       else (case walk_in f s (butlast (components p)) of Inl e \<Rightarrow> Inl e | Inr d \<Rightarrow> Inr (Some d)))"
    if "cwd f = cwd fs" for f
    using that by (simp add: lookup_parent_def Let_def s_def)
  from assms(4) have s: "p \<noteq> []" "\<not> path_max \<le> length p" "is_dir fs s"
    by (auto simp: lp split: if_splits)
  then have s': "is_dir fs' s" using assms(1) by blast
  show ?thesis
  proof (cases "components p = []")
    case True
    with assms s s' show ?thesis by (simp add: lp)
  next
    case False
    with assms(4) s obtain d where d: "walk fs s (butlast (components p)) = Inr d"
      and sd: "searchable fs d" and r: "r = Some d"
      by (auto simp: lp walk_in_def split: sum.splits if_splits)
    from d have "walk fs' s (butlast (components p)) = Inr d"
      using assms(1,3) walk_mono by blast
    with sd r assms(2,3) s s' False show ?thesis
      by (simp add: lp walk_in_def searchable_def)
  qed
qed

lemma namei_mono:
  assumes "\<forall>l. is_dir fs l \<longrightarrow> is_dir fs' l" and "cwd fs' = cwd fs" and "locked fs' = locked fs"
    and "namei fs p = Inr r"
  shows "namei fs' p = Inr r"
proof -
  from assms(4) obtain par where par: "lookup_parent fs p = Inr par"
    by (auto simp: namei_def split: sum.splits)
  with assms(1-3) have "lookup_parent fs' p = Inr par" by (rule lookup_parent_mono)
  with par assms(4) show ?thesis by (simp add: namei_def)
qed

lemma namei_file_place:
  assumes "namei fs p = Inr (loc, False)"
  shows "loc \<noteq> []" and "last (split_slash p) \<noteq> []" and "last (split_slash p) \<noteq> ''.''"
    and "length p < path_max"
proof -
  from assms obtain d where d: "lookup_parent fs p = Inr (Some d)"
    by (auto simp: namei_def split: sum.splits option.splits)
  then have c0: "p \<noteq> []" "components p \<noteq> []"
    by (auto simp: lookup_parent_def Let_def split: if_splits sum.splits)
  from d show "length p < path_max"
    by (auto simp: lookup_parent_def Let_def split: if_splits)
  from assms d have c: "last (components p) \<noteq> ''.''" "last p \<noteq> CHR ''/''"
    and loc: "loc = d @ [last (components p)]"
    by (auto simp: namei_def Let_def split: if_splits)
  from loc show "loc \<noteq> []" by simp
  have "split_slash (q @ [x]) = butlast (split_slash q) @ [last (split_slash q) @ [x]]"
    if "x \<noteq> CHR ''/''" for q x
    using that
  proof (induction q)
    case Nil
    then show ?case by simp
  next
    case (Cons a q)
    obtain w' ws' where "split_slash q = w' # ws'"
      using split_slash_nonempty by (cases "split_slash q") auto
    with Cons show ?case by (cases ws') auto
  qed
  then have "last (split_slash (q @ [x])) = last (split_slash q) @ [x]"
    if "x \<noteq> CHR ''/''" for q x
    using that by simp
  from this [of "last p" "butlast p"] c c0 show l: "last (split_slash p) \<noteq> []" by simp
  have "last (components p) = last (split_slash p)"
    using l split_slash_nonempty by (simp add: components_def last_filter)
  with c show "last (split_slash p) \<noteq> ''.''" by simp
qed


lemma is_dir_alt: "is_dir fs l = (l = [] \<or> (\<exists>t. map_of (nodes fs) l = Some (Dir t)))"
  by (auto simp: is_dir_def lookup_def split: option.splits node.splits)

lemma touch_dir:
  "(\<exists>t'. map_of (touch d t ns) l = Some (Dir t')) = (\<exists>t'. map_of ns l = Some (Dir t'))"
  by (auto simp: map_of_touch split: option.splits node.splits)

lemma touch_other: "map_of ns l = None \<Longrightarrow> map_of (touch d t ns) l = None"
  by (simp add: map_of_touch)


lemma os_write_effect:
  assumes "os_write fs p bytes = Inr fs1"
  obtains loc where "namei fs p = Inr (loc, False)" and "namei fs1 p = Inr (loc, False)"
    and "lookup fs1 loc = Some (File bytes (clock fs))"
    and "\<forall>l. is_dir fs1 l = is_dir fs l" and "cwd fs1 = cwd fs" and "locked fs1 = locked fs"
proof -
  from assms obtain loc where n: "namei fs p = Inr (loc, False)"
    by (auto simp: os_write_def split: sum.splits if_splits)
  then have ne: "loc \<noteq> []" by (rule namei_file_place)
  from assms n have w: "(case lookup fs loc of
        Some (Dir t) \<Rightarrow> Inl EISDIR
      | Some (File b t) \<Rightarrow>
          Inr (fs\<lparr>nodes := dict_set loc (File bytes (clock fs)) (nodes fs),
                  clock := Suc (clock fs)\<rparr>)
      | None \<Rightarrow>
          Inr (fs\<lparr>nodes := dict_set loc (File bytes (clock fs))
                             (touch (butlast loc) (clock fs) (nodes fs)),
                  clock := Suc (clock fs)\<rparr>)) = Inr fs1"
    by (auto simp: os_write_def split: sum.splits if_splits)
  let ?f = "File bytes (clock fs)"
  have "lookup fs1 loc = Some ?f \<and> (\<forall>l. is_dir fs1 l = is_dir fs l) \<and> cwd fs1 = cwd fs
        \<and> locked fs1 = locked fs"
  proof (cases "lookup fs loc")
    case None
    with w have fs1: "fs1 = fs\<lparr>nodes := dict_set loc ?f (touch (butlast loc) (clock fs) (nodes fs)),
        clock := Suc (clock fs)\<rparr>"
      by simp
    from None ne have m: "map_of (nodes fs) loc = None" by (simp add: lookup_def)
    have "is_dir fs1 l = is_dir fs l" for l
      using m by (cases "l = loc") (simp_all add: fs1 is_dir_alt map_of_dict_set touch_dir)
    then show ?thesis using ne by (simp add: fs1 lookup_def map_of_dict_set)
  next
    case (Some nd)
    with w obtain b t where nd: "nd = File b t"
      by (cases nd) simp_all
    with Some w have fs1: "fs1 = fs\<lparr>nodes := dict_set loc ?f (nodes fs), clock := Suc (clock fs)\<rparr>"
      by simp
    from Some nd ne have m: "map_of (nodes fs) loc = Some (File b t)" by (simp add: lookup_def)
    have "is_dir fs1 l = is_dir fs l" for l
      using m by (cases "l = loc") (simp_all add: fs1 is_dir_alt map_of_dict_set)
    then show ?thesis using ne by (simp add: fs1 lookup_def map_of_dict_set)
  qed
  then have f: "lookup fs1 loc = Some ?f" and d: "\<forall>l. is_dir fs1 l = is_dir fs l"
    and c: "cwd fs1 = cwd fs" and k: "locked fs1 = locked fs" by auto
  have "namei fs1 p = Inr (loc, False)"
    using namei_mono [of fs fs1 p "(loc, False)"] d c k n by simp
  with n f d c k show ?thesis using that by blast
qed

lemma os_unlink_effect:
  assumes "os_unlink fs q = Inr fs2"
  obtains loc where "namei fs q = Inr (loc, False)" and "lookup fs2 loc = None"
    and "\<forall>l. is_dir fs2 l = is_dir fs l" and "cwd fs2 = cwd fs" and "locked fs2 = locked fs"
proof -
  from assms obtain loc b t where n: "namei fs q = Inr (loc, False)"
    and l: "lookup fs loc = Some (File b t)"
    by (auto simp: os_unlink_def split: sum.splits option.splits node.splits if_splits)
  then have ne: "loc \<noteq> []" by (auto simp: lookup_def split: if_splits)
  from assms n l have fs2: "fs2 = fs\<lparr>nodes := touch (butlast loc) (clock fs)
      (filter (\<lambda>kv. fst kv \<noteq> loc) (nodes fs)), clock := Suc (clock fs)\<rparr>"
    by (simp add: os_unlink_def)
  from l ne have m: "map_of (nodes fs) loc = Some (File b t)" by (simp add: lookup_def)
  have g: "lookup fs2 loc = None"
    using ne by (simp add: fs2 lookup_def touch_other map_of_remove)
  have d: "is_dir fs2 x = is_dir fs x" for x
    using m by (cases "x = loc") (simp_all add: fs2 is_dir_alt touch_dir map_of_remove)
  have "cwd fs2 = cwd fs" "locked fs2 = locked fs" by (simp_all add: fs2)
  with n g d show ?thesis using that by blast
qed

lemma demo_create:
  "create_object demo_py demo_env demo_fs ''recipe'' ''r1'' demo_doc ''json'' = Inr demo_fs1"
  by code_simp

text \<open>
  C6. After \<open>create\<close> has returned, the object exists; \<open>delete\<close> on the same type, id and
  extension then returns, and after it \<open>exists\<close> is false and \<open>read\<close> fails with
  \<open>FileNotFoundError\<close> for the resolved path.
\<close>

theorem delete_after_create:
  assumes "create_object py env fs obj_type obj_id obj_info obj_extension = Inr fs1"
  shows "\<exists>fs2 p. get_filepath env obj_type obj_id obj_extension = Inr p
           \<and> is_object_exists env fs1 obj_type obj_id obj_extension = Inr True
           \<and> delete_object env fs1 obj_type obj_id obj_extension = Inr fs2
           \<and> is_object_exists env fs2 obj_type obj_id obj_extension = Inr False
           \<and> read_object py env fs2 obj_type obj_id obj_extension = Inl (FileNotFoundError p)"
proof -
  from assms obtain root where r: "getattr env obj_type = Inr root"
    by (auto simp: create_object_def split: sum.splits)
  define p where "p = root @ ''/'' @ obj_id @ ''.'' @ obj_extension"
  from assms r obtain rendered where w0: "open_write fs p rendered = Inr fs1"
    by (auto simp: create_object_def p_def split: sum.splits)
  then have nn: "\<not> has_null p" and w: "os_write fs p rendered = Inr fs1"
    by (auto simp: open_write_def split: sum.splits if_splits)
  from w obtain loc where n1: "namei fs1 p = Inr (loc, False)"
    and f1: "lookup fs1 loc = Some (File rendered (clock fs))"
    by (rule os_write_effect)
  from n1 have sp: "namei fs' (str_Path p) = namei fs' p" for fs'
    by (intro namei_str_Path) (rule namei_file_place, assumption)+
  have e1: "Path_exists fs1 p = Inr True"
    using nn n1 f1 by (simp add: Path_exists_def os_stat_def sp)
  obtain fs2 where u: "os_unlink fs1 (str_Path p) = Inr fs2"
    using n1 f1 by (simp add: os_unlink_def sp)
  from u obtain loc' where n1': "namei fs1 (str_Path p) = Inr (loc', False)"
    and g: "lookup fs2 loc' = None" and d: "\<forall>l. is_dir fs2 l = is_dir fs1 l"
    and c: "cwd fs2 = cwd fs1" and k: "locked fs2 = locked fs1"
    by (rule os_unlink_effect)
  from n1 n1' have "loc' = loc" by (simp add: sp)
  have n2: "namei fs2 p = Inr (loc, False)"
    using namei_mono [of fs1 fs2 p "(loc, False)"] d c k n1 by simp
  have s2: "os_stat fs2 p = Inl ENOENT"
    using n2 g \<open>loc' = loc\<close> by (simp add: os_stat_def)
  have r2: "os_read fs2 p = Inl ENOENT"
    using n2 g \<open>loc' = loc\<close> by (simp add: os_read_def)
  have e2: "Path_exists fs2 p = Inr False"
    using s2 nn by (simp add: Path_exists_def os_stat_def sp ignore_error_def)
  have "get_filepath env obj_type obj_id obj_extension = Inr p"
    using r by (simp add: get_filepath_def p_def)
  moreover have "is_object_exists env fs1 obj_type obj_id obj_extension = Inr True"
    using r e1 by (simp add: is_object_exists_def p_def)
  moreover have "delete_object env fs1 obj_type obj_id obj_extension = Inr fs2"
    using r e1 u nn by (simp add: delete_object_def Path_unlink_def p_def)
  moreover have "is_object_exists env fs2 obj_type obj_id obj_extension = Inr False"
    using r e2 by (simp add: is_object_exists_def p_def)
  moreover have "read_object py env fs2 obj_type obj_id obj_extension = Inl (FileNotFoundError p)"
    using r nn r2 by (simp add: read_object_def open_read_def os_error_def p_def)
  ultimately show ?thesis by blast
qed

theorem delete_after_create_witness:
  "create_object demo_py demo_env demo_fs ''recipe'' ''r1'' demo_doc ''json'' = Inr demo_fs1
   \<and> (\<exists>fs2. delete_object demo_env demo_fs1 ''recipe'' ''r1'' ''json'' = Inr fs2
          \<and> is_object_exists demo_env fs2 ''recipe'' ''r1'' ''json'' = Inr False
          \<and> read_object demo_py demo_env fs2 ''recipe'' ''r1'' ''json''
              = Inl (FileNotFoundError ''data/recipe/r1.json''))"
proof -
  have c: "create_object demo_py demo_env demo_fs ''recipe'' ''r1'' demo_doc ''json'' = Inr demo_fs1"
    by code_simp
  have p: "get_filepath demo_env ''recipe'' ''r1'' ''json'' = Inr ''data/recipe/r1.json''"
    by code_simp
  from delete_after_create [OF c] p c show ?thesis by auto
qed


end
